theory Spec2Isabelle
  imports Complex_Main "HOL-Library.Word"
begin

unbundle bit_operations_syntax

section \<open>Python values\<close>

text \<open>
  The simulators compute with Python \<open>float\<close> and \<open>int\<close>. Integers are unbounded and are
  modelled as \<open>int\<close>; floats are modelled as \<open>real\<close>, with two additions made where the
  difference shows in a result (\<open>py_float\<close> and \<open>float_result\<close> below). Every random draw
  and every clock reading of the source (\<open>random.uniform\<close>, \<open>random.gauss\<close>, \<open>time.time()\<close>,
  \<open>datetime.now()\<close>) is an explicit argument of the function that makes it, so a model
  function is a function of its inputs.
\<close>

datatype py_error = ZeroDivisionError | ValueError

text \<open>
  A float read from the configuration: \<open>float(os.getenv(...))\<close> also accepts \<open>inf\<close>, \<open>-inf\<close>
  and \<open>nan\<close>. \<open>Infinity\<close> stands for both infinities.
\<close>

datatype py_float = Finite real | Infinity | NaN

text \<open>
  The result of float arithmetic that \<open>int()\<close> truncates. The doubles of a product or a
  quotient need not be the numbers they stand for: \<open>round(1.001, 3) * 1000\<close> is
  \<open>1000.9999999999999\<close>, which \<open>int()\<close> takes to 1000. Such a result is the exact result
  plus its rounding error, and the error is an explicit argument, as a random draw is.
\<close>

definition float_result :: "real \<Rightarrow> real \<Rightarrow> real" where
  "float_result err x = x + err"

text \<open>Python's \<open>int(x)\<close> on a float truncates towards zero.\<close>

definition py_int :: "real \<Rightarrow> int" where
  "py_int x = (if 0 \<le> x then \<lfloor>x\<rfloor> else \<lceil>x\<rceil>)"

text \<open>Python's \<open>round(x, n)\<close>: to \<open>n\<close> decimals, a tie going to the even neighbour.\<close>

definition round_half_even :: "real \<Rightarrow> int" where
  "round_half_even y =
     (let f = \<lfloor>y\<rfloor>; d = y - of_int f
      in if d < 1 / 2 then f
         else if 1 / 2 < d then f + 1
         else if even f then f else f + 1)"

definition py_round :: "nat \<Rightarrow> real \<Rightarrow> real" where
  "py_round n x = of_int (round_half_even (x * 10 ^ n)) / 10 ^ n"

text \<open>Float division raises on a zero divisor, also for \<open>0.0 / 0.0\<close>.\<close>

definition py_div :: "real \<Rightarrow> real \<Rightarrow> py_error + real" where
  "py_div a b = (if b = 0 then Inl ZeroDivisionError else Inr (a / b))"

text \<open>The clamping idiom \<open>max(lo, min(hi, x))\<close> used throughout the simulators.\<close>

definition clamp :: "real \<Rightarrow> real \<Rightarrow> real \<Rightarrow> real" where
  "clamp lo hi x = max lo (min hi x)"


section \<open>Register encoding (orbiteos-simulators/src/main.py)\<close>

text \<open>
  \<open>ModbusSimulatorServer._int32_to_registers\<close> and \<open>_uint32_to_registers\<close>: a Python
  integer becomes a (high, low) pair of 16-bit register values. \<open>>>\<close> and \<open>&\<close> on Python
  integers are the two's-complement operations \<open>drop_bit\<close> and \<open>AND\<close> on \<open>int\<close>.
\<close>

definition int32_to_registers :: "int \<Rightarrow> int \<times> int" where
  "int32_to_registers value0 =
     (let v = (if value0 < 0 then value0 + 0x100000000 else value0)
      in ((drop_bit 16 v) AND 0xFFFF, v AND 0xFFFF))"

definition uint32_to_registers :: "int \<Rightarrow> int \<times> int" where
  "uint32_to_registers value0 =
     (let v = value0 AND 0xFFFFFFFF
      in ((drop_bit 16 v) AND 0xFFFF, v AND 0xFFFF))"

text \<open>
  The readers of the registers are not part of the repository. The decoders follow the
  specification's words: a register cell holds 16 bits, the pair is recombined big-endian
  (high word first), and for a signed field the 32-bit pattern is read as two's
  complement. A pair with a value that no 16-bit cell can hold has no reading.
\<close>

definition is_cell :: "int \<Rightarrow> bool" where
  "is_cell x = (0 \<le> x \<and> x < 65536)"

definition registers_to_uint32 :: "int \<times> int \<Rightarrow> int option" where
  "registers_to_uint32 r =
     (if is_cell (fst r) \<and> is_cell (snd r) then Some (fst r * 65536 + snd r) else None)"

definition registers_to_int32 :: "int \<times> int \<Rightarrow> int option" where
  "registers_to_int32 r =
     (case registers_to_uint32 r of
        None \<Rightarrow> None
      | Some u \<Rightarrow> Some (if 0x80000000 \<le> u then u - 0x100000000 else u))"

text \<open>What the specification asks for on overflow: the nearest representable bound.\<close>

definition clamp_int32 :: "int \<Rightarrow> int" where
  "clamp_int32 v = max (- 2147483648) (min 2147483647 v)"

definition clamp_uint32 :: "int \<Rightarrow> int" where
  "clamp_uint32 v = max 0 (min 4294967295 v)"


section \<open>BatterySimulator (orbiteos-simulators/src/battery_simulator.py)\<close>

text \<open>The instance attributes set by \<open>__init__\<close>.\<close>

record battery =
  capacity_kwh :: real
  max_power_kw :: real
  soc :: real
  min_soc :: real
  max_soc :: real
  power_kw :: real
  voltage :: real
  current :: real
  temperature :: real
  total_charged_kwh :: real
  total_discharged_kwh :: real
  cycle_count :: real
  is_charging :: bool
  is_discharging :: bool

text \<open>The dictionary returned by \<open>get_status\<close>, one field per key.\<close>

record battery_status =
  soc :: real
  power_kw :: real
  voltage :: real
  current :: real
  temperature :: real
  capacity_kwh :: real
  remaining_kwh :: real
  hours_remaining :: real
  is_charging :: bool
  is_discharging :: bool
  max_charge_power_kw :: real
  max_discharge_power_kw :: real
  total_charged_kwh :: real
  total_discharged_kwh :: real
  cycle_count :: real
  health :: real
  state :: string

text \<open>Class constants.\<close>

abbreviation MIN_VOLTAGE :: real where "MIN_VOLTAGE \<equiv> 42.0"
abbreviation MAX_VOLTAGE :: real where "MAX_VOLTAGE \<equiv> 57.6"
abbreviation CHARGE_EFFICIENCY :: real where "CHARGE_EFFICIENCY \<equiv> 0.95"
abbreviation DISCHARGE_EFFICIENCY :: real where "DISCHARGE_EFFICIENCY \<equiv> 0.95"
abbreviation MIN_SOC :: real where "MIN_SOC \<equiv> 5.0"
abbreviation MAX_SOC :: real where "MAX_SOC \<equiv> 100.0"
abbreviation OPTIMAL_TEMP_MIN :: real where "OPTIMAL_TEMP_MIN \<equiv> 15.0"
abbreviation OPTIMAL_TEMP_MAX :: real where "OPTIMAL_TEMP_MAX \<equiv> 25.0"
abbreviation AMBIENT_TEMP :: real where "AMBIENT_TEMP \<equiv> 20.0"

text \<open>
  \<open>_calculate_voltage\<close>; \<open>variation\<close> is the draw \<open>random.uniform(0.995, 1.005)\<close>.
\<close>

definition calculate_voltage :: "battery \<Rightarrow> real \<Rightarrow> real" where
  "calculate_voltage b variation =
     (let voltage_range = MAX_VOLTAGE - MIN_VOLTAGE;
          v = MIN_VOLTAGE + (battery.soc b / 100.0) * voltage_range
      in py_round 2 (v * variation))"

text \<open>\<open>_calculate_temperature\<close>; the division by \<open>max_power_kw\<close> is unguarded.\<close>

definition calculate_temperature :: "battery \<Rightarrow> real \<Rightarrow> real \<Rightarrow> py_error + real" where
  "calculate_temperature b p_kw dt_seconds =
     (case py_div \<bar>p_kw\<bar> (battery.max_power_kw b) of
        Inl e \<Rightarrow> Inl e
      | Inr heat_factor \<Rightarrow>
          let heat_generation = heat_factor * 0.5;
              temp_diff = battery.temperature b - AMBIENT_TEMP;
              cooling = temp_diff * 0.01;
              new_temp = battery.temperature b + (heat_generation - cooling) * (dt_seconds / 60.0)
          in Inr (max 5.0 (min 45.0 new_temp)))"

text \<open>\<open>_get_efficiency\<close>.\<close>

definition get_efficiency :: "battery \<Rightarrow> bool \<Rightarrow> real" where
  "get_efficiency b charging =
     (let base_efficiency = (if charging then CHARGE_EFFICIENCY else DISCHARGE_EFFICIENCY);
          temp_factor =
            (if battery.temperature b < OPTIMAL_TEMP_MIN
               then 1.0 - (OPTIMAL_TEMP_MIN - battery.temperature b) * 0.005
             else if battery.temperature b > OPTIMAL_TEMP_MAX
               then 1.0 - (battery.temperature b - OPTIMAL_TEMP_MAX) * 0.003
             else 1.0);
          soc_factor =
            (if charging \<and> battery.soc b > 90 then 1.0 - (battery.soc b - 90) * 0.01
             else if \<not> charging \<and> battery.soc b < 20 then 1.0 - (20 - battery.soc b) * 0.01
             else 1.0)
      in base_efficiency * temp_factor * soc_factor)"

text \<open>\<open>_get_power_limit\<close>, with the source's branch order.\<close>

definition get_power_limit :: "battery \<Rightarrow> bool \<Rightarrow> real" where
  "get_power_limit b charging =
     (let max_power0 = battery.max_power_kw b;
          max_power1 =
            (if charging then
               (if battery.soc b > 90 then max_power0 * ((100 - battery.soc b) / 10.0)
                else if battery.soc b > 95 then max_power0 * 0.2
                else max_power0)
             else
               (if battery.soc b < 15 then max_power0 * (battery.soc b / 15.0)
                else if battery.soc b < 10 then max_power0 * 0.2
                else max_power0))
      in if battery.temperature b > 40 then max_power1 * 0.5
         else if battery.temperature b > 35 then max_power1 * 0.8
         else if battery.temperature b < 5 then max_power1 * 0.3
         else if battery.temperature b < 10 then max_power1 * 0.7
         else max_power1)"

text \<open>\<open>_calculate_health\<close> and \<open>_get_state_string\<close>.\<close>

definition calculate_health :: "battery \<Rightarrow> real" where
  "calculate_health b =
     (let degradation = battery.cycle_count b / 5000.0 * 20
      in max 80.0 (100.0 - degradation))"

definition get_state_string :: "battery \<Rightarrow> string" where
  "get_state_string b =
     (if battery.is_charging b then ''charging''
      else if battery.is_discharging b then ''discharging''
      else if battery.soc b \<ge> battery.max_soc b then ''full''
      else if battery.soc b \<le> battery.min_soc b then ''empty''
      else ''standby'')"

text \<open>\<open>get_status\<close>. Every division in it is guarded by the source.\<close>

definition battery_get_status :: "battery \<Rightarrow> battery_status" where
  "battery_get_status b =
     (let usable_soc = max 0 (battery.soc b - battery.min_soc b);
          remaining = (usable_soc / 100.0) * battery.capacity_kwh b;
          hours =
            (if battery.is_discharging b \<and> battery.power_kw b > 0
               then remaining / battery.power_kw b
             else if battery.is_charging b \<and> battery.power_kw b < 0
               then (let energy_to_full =
                           ((battery.max_soc b - battery.soc b) / 100.0) * battery.capacity_kwh b
                     in if battery.power_kw b \<noteq> 0 then energy_to_full / \<bar>battery.power_kw b\<bar>
                        else 0)
             else 0)
      in \<lparr> battery_status.soc = py_round 1 (battery.soc b),
           battery_status.power_kw = py_round 3 (battery.power_kw b),
           battery_status.voltage = py_round 2 (battery.voltage b),
           battery_status.current = py_round 2 (battery.current b),
           battery_status.temperature = py_round 1 (battery.temperature b),
           battery_status.capacity_kwh = battery.capacity_kwh b,
           remaining_kwh = py_round 2 remaining,
           hours_remaining = py_round 2 hours,
           battery_status.is_charging = battery.is_charging b,
           battery_status.is_discharging = battery.is_discharging b,
           max_charge_power_kw = get_power_limit b True,
           max_discharge_power_kw = get_power_limit b False,
           battery_status.total_charged_kwh = py_round 2 (battery.total_charged_kwh b),
           battery_status.total_discharged_kwh = py_round 2 (battery.total_discharged_kwh b),
           battery_status.cycle_count = py_round 1 (battery.cycle_count b),
           health = calculate_health b,
           state = get_state_string b \<rparr>)"

text \<open>
  \<open>__init__\<close>; \<open>variation\<close> is the draw made by the call of \<open>_calculate_voltage\<close>.
\<close>

definition BatterySimulator ::
  "real \<Rightarrow> real \<Rightarrow> real \<Rightarrow> real \<Rightarrow> real \<Rightarrow> real \<Rightarrow> battery" where
  "BatterySimulator capacity max_power initial_soc mn mx variation =
     (let b0 = \<lparr> battery.capacity_kwh = capacity,
                  battery.max_power_kw = max_power,
                  battery.soc = max mn (min mx initial_soc),
                  min_soc = mn,
                  max_soc = mx,
                  battery.power_kw = 0.0,
                  battery.voltage = 0,
                  battery.current = 0.0,
                  battery.temperature = AMBIENT_TEMP,
                  battery.total_charged_kwh = 0.0,
                  battery.total_discharged_kwh = 0.0,
                  battery.cycle_count = 0.0,
                  battery.is_charging = False,
                  battery.is_discharging = False \<rparr>
      in b0\<lparr>battery.voltage := calculate_voltage b0 variation\<rparr>)"

text \<open>
  \<open>update\<close>, lines 193 to 212: the power the battery accepts for the request
  (negative charges, positive discharges).
\<close>

definition constrain_power :: "battery \<Rightarrow> real \<Rightarrow> real" where
  "constrain_power b requested_power_kw =
     (let charging = requested_power_kw < 0;
          max_charge_power = get_power_limit b True;
          max_discharge_power = get_power_limit b False
      in if charging then
           (if battery.soc b \<ge> battery.max_soc b then 0.0
            else max (- max_charge_power) requested_power_kw)
         else
           (if battery.soc b \<le> battery.min_soc b then 0.0
            else min max_discharge_power requested_power_kw))"

text \<open>
  \<open>update\<close>, lines 218 to 227: the energy of the step is added to or taken from the
  state of charge and the energy counters. A division that raises leaves the attributes
  as they were, since it is evaluated before the assignment.
\<close>

definition integrate_energy ::
  "battery \<Rightarrow> bool \<Rightarrow> real \<Rightarrow> real \<Rightarrow> real \<Rightarrow> py_error + battery" where
  "integrate_energy b charging actual_power dt_hours efficiency =
     (if charging then
        (let energy_change_kwh = \<bar>actual_power\<bar> * dt_hours * efficiency
         in case py_div energy_change_kwh (battery.capacity_kwh b) of
              Inl e \<Rightarrow> Inl e
            | Inr q \<Rightarrow>
                Inr (b\<lparr> battery.soc := battery.soc b + q * 100,
                        battery.total_charged_kwh :=
                          battery.total_charged_kwh b + energy_change_kwh \<rparr>))
      else
        (case py_div (actual_power * dt_hours) efficiency of
           Inl e \<Rightarrow> Inl e
         | Inr energy_change_kwh \<Rightarrow>
             (case py_div energy_change_kwh (battery.capacity_kwh b) of
                Inl e \<Rightarrow> Inl e
              | Inr q \<Rightarrow>
                  Inr (b\<lparr> battery.soc := battery.soc b - q * 100,
                          battery.total_discharged_kwh :=
                            battery.total_discharged_kwh b + actual_power * dt_hours \<rparr>))))"

text \<open>\<open>update\<close>, line 230: the state of charge is clamped to the window.\<close>

definition clamp_soc :: "battery \<Rightarrow> battery" where
  "clamp_soc b =
     b\<lparr>battery.soc := max (battery.min_soc b) (min (battery.max_soc b) (battery.soc b))\<rparr>"

text \<open>
  \<open>update\<close>, lines 233 and 234: the cycle count. The capacity is not zero here, since
  the division by it in the energy step has succeeded.
\<close>

definition count_cycle :: "real \<Rightarrow> real \<Rightarrow> battery \<Rightarrow> battery" where
  "count_cycle actual_power dt_hours b =
     (if \<bar>actual_power\<bar> > 0.1
      then b\<lparr>battery.cycle_count :=
               battery.cycle_count b
               + \<bar>actual_power\<bar> * dt_hours / (2 * battery.capacity_kwh b)\<rparr>
      else b)"

text \<open>\<open>update\<close>, lines 237 and 238: voltage and current.\<close>

definition measure_voltage :: "real \<Rightarrow> battery \<Rightarrow> battery" where
  "measure_voltage variation b = b\<lparr>battery.voltage := calculate_voltage b variation\<rparr>"

definition measure_current :: "real \<Rightarrow> battery \<Rightarrow> battery" where
  "measure_current actual_power b =
     b\<lparr>battery.current :=
         (if battery.voltage b > 0 then (actual_power * 1000) / battery.voltage b else 0)\<rparr>"

text \<open>\<open>update\<close>, lines 242 to 244: the power and the two flags are stored.\<close>

definition store_power :: "bool \<Rightarrow> real \<Rightarrow> battery \<Rightarrow> battery" where
  "store_power charging actual_power b =
     b\<lparr> battery.power_kw := actual_power,
         battery.is_charging := (charging \<and> actual_power \<noteq> 0),
         battery.is_discharging := (\<not> charging \<and> actual_power \<noteq> 0) \<rparr>"

text \<open>
  \<open>update\<close>. The result is the status dictionary, or the error raised, together with the
  attributes as the call leaves them (an exception keeps the assignments made before it).
\<close>

definition battery_update ::
  "real \<Rightarrow> real \<Rightarrow> real \<Rightarrow> battery \<Rightarrow> (py_error + battery_status) \<times> battery" where
  "battery_update variation requested_power_kw dt_seconds b =
     (let charging = requested_power_kw < 0;
          actual_power = constrain_power b requested_power_kw;
          efficiency = get_efficiency b charging;
          dt_hours = dt_seconds / 3600.0
      in case integrate_energy b charging actual_power dt_hours efficiency of
           Inl e \<Rightarrow> (Inl e, b)
         | Inr b1 \<Rightarrow>
             (let b5 = measure_current actual_power
                         (measure_voltage variation
                           (count_cycle actual_power dt_hours (clamp_soc b1)))
              in (case calculate_temperature b5 actual_power dt_seconds of
                    Inl e \<Rightarrow> (Inl e, b5)
                  | Inr t \<Rightarrow>
                      (let b6 = store_power charging actual_power
                                  (b5\<lparr>battery.temperature := t\<rparr>)
                       in (Inr (battery_get_status b6), b6)))))"

text \<open>\<open>set_soc\<close>; \<open>variation\<close> is the draw of \<open>_calculate_voltage\<close>.\<close>

definition set_soc :: "real \<Rightarrow> real \<Rightarrow> battery \<Rightarrow> battery" where
  "set_soc new_soc variation b =
     measure_voltage variation
       (b\<lparr>battery.soc := max (battery.min_soc b) (min (battery.max_soc b) new_soc)\<rparr>)"

text \<open>
  A client's use of one battery object: a sequence of \<open>update\<close> and \<open>set_soc\<close> calls, each
  with its arguments and its random draw. A caller that catches the exception of a failed
  \<open>update\<close> (as the server's loop does) goes on with the object as the call left it.
\<close>

datatype battery_call =
  Update real real real
  | Set_soc real real

fun battery_call_step :: "battery \<Rightarrow> battery_call \<Rightarrow> battery" where
  "battery_call_step b (Update variation requested_power_kw dt_seconds) =
     snd (battery_update variation requested_power_kw dt_seconds b)"
| "battery_call_step b (Set_soc new_soc variation) = set_soc new_soc variation b"

definition battery_run :: "battery \<Rightarrow> battery_call list \<Rightarrow> battery" where
  "battery_run b calls = foldl battery_call_step b calls"

text \<open>The state of charge lies in the configured window.\<close>

definition soc_in_window :: "battery \<Rightarrow> bool" where
  "soc_in_window b \<longleftrightarrow> battery.min_soc b \<le> battery.soc b \<and> battery.soc b \<le> battery.max_soc b"

text \<open>
  The battery the server builds (13.5 kWh, 5 kW, 50 %, window 5 % to 100 %), with the
  voltage draw 1, and the same battery set to 5.001 %.
\<close>

definition powerwall :: battery where
  "powerwall = BatterySimulator 13.5 5.0 50.0 MIN_SOC MAX_SOC 1"

definition powerwall_low :: battery where
  "powerwall_low = set_soc 5.001 1 powerwall"


section \<open>EVChargerSimulator (orbiteos-simulators/src/ev_simulator.py)\<close>

text \<open>\<open>ChargerStatus\<close>, an \<open>IntEnum\<close>, and its integer values.\<close>

datatype ChargerStatus =
  AVAILABLE | PREPARING | CHARGING | SUSPENDED_EV | SUSPENDED_EVSE
  | FINISHING | RESERVED | UNAVAILABLE | FAULTED

fun status_code_of :: "ChargerStatus \<Rightarrow> int" where
  "status_code_of AVAILABLE = 0"
| "status_code_of PREPARING = 1"
| "status_code_of CHARGING = 2"
| "status_code_of SUSPENDED_EV = 3"
| "status_code_of SUSPENDED_EVSE = 4"
| "status_code_of FINISHING = 5"
| "status_code_of RESERVED = 6"
| "status_code_of UNAVAILABLE = 7"
| "status_code_of FAULTED = 8"

text \<open>The instance attributes; \<open>session_start\<close> is a time in seconds, or \<open>None\<close>.\<close>

record ev_charger =
  max_power_kw :: real
  vehicle_capacity_kwh :: real
  arrival_hour :: int
  departure_hour :: int
  max_current :: real
  current_limit :: real
  status :: ChargerStatus
  power_w :: real
  session_energy_wh :: real
  total_energy_wh :: real
  vehicle_connected :: bool
  vehicle_soc :: real
  vehicle_target_soc :: real
  session_start :: "real option"
  last_update :: real

text \<open>
  What one call reads from outside the object: \<open>time.time()\<close>, \<open>datetime.now()\<close> (as
  seconds, with its \<open>hour\<close>), the draw \<open>random.uniform(20, 50)\<close> of a vehicle that arrives
  and the draw \<open>random.uniform(0.98, 1.02)\<close> of the charging power. The calls of
  \<open>datetime.now()\<close> within one call of the simulator read the same instant.
\<close>

record ev_env =
  time_now :: real
  now :: real
  current_hour :: int
  soc_draw :: real
  power_draw :: real

text \<open>The dictionary returned by \<open>get_status\<close>.\<close>

record ev_status =
  status :: string
  status_code :: int
  power_w :: real
  power_kw :: real
  max_power_w :: real
  current_limit_a :: real
  vehicle_connected :: bool
  vehicle_soc :: real
  vehicle_target_soc :: real
  session_energy_wh :: real
  session_energy_kwh :: real
  session_duration_min :: real
  hours_to_target :: real
  total_energy_kwh :: real
  arrival_hour :: int
  departure_hour :: int

abbreviation DEFAULT_VOLTAGE :: real where "DEFAULT_VOLTAGE \<equiv> 400.0"
abbreviation MIN_CURRENT :: real where "MIN_CURRENT \<equiv> 6.0"
abbreviation TARGET_SOC :: real where "TARGET_SOC \<equiv> 80.0"
abbreviation CHARGING_EFFICIENCY :: real where "CHARGING_EFFICIENCY \<equiv> 0.92"

text \<open>
  The schedule test shared by \<open>_schedule_vehicle\<close> and \<open>update\<close>: the vehicle is due at
  the charger at this hour.
\<close>

definition vehicle_due :: "ev_charger \<Rightarrow> int \<Rightarrow> bool" where
  "vehicle_due ev h =
     (if ev_charger.arrival_hour ev < ev_charger.departure_hour ev
      then ev_charger.arrival_hour ev \<le> h \<and> h < ev_charger.departure_hour ev
      else h \<ge> ev_charger.arrival_hour ev \<or> h < ev_charger.departure_hour ev)"

text \<open>\<open>_schedule_vehicle\<close>.\<close>

definition schedule_vehicle :: "ev_env \<Rightarrow> ev_charger \<Rightarrow> ev_charger" where
  "schedule_vehicle env ev =
     (let ev1 = ev\<lparr>ev_charger.vehicle_connected := vehicle_due ev (current_hour env)\<rparr>
      in if ev_charger.vehicle_connected ev1
         then ev1\<lparr> ev_charger.vehicle_soc := soc_draw env,
                   ev_charger.status := CHARGING,
                   session_start := Some (now env) \<rparr>
         else ev1\<lparr> ev_charger.vehicle_soc := 0.0,
                   ev_charger.status := AVAILABLE \<rparr>)"

text \<open>\<open>__init__\<close>.\<close>

definition EVChargerSimulator ::
  "real \<Rightarrow> real \<Rightarrow> int \<Rightarrow> int \<Rightarrow> ev_env \<Rightarrow> ev_charger" where
  "EVChargerSimulator max_power capacity arrival departure env =
     schedule_vehicle env
       \<lparr> ev_charger.max_power_kw = max_power,
         vehicle_capacity_kwh = capacity,
         ev_charger.arrival_hour = arrival,
         ev_charger.departure_hour = departure,
         max_current = (max_power * 1000) / (DEFAULT_VOLTAGE * 1.732),
         current_limit = (max_power * 1000) / (DEFAULT_VOLTAGE * 1.732),
         ev_charger.status = AVAILABLE,
         ev_charger.power_w = 0.0,
         ev_charger.session_energy_wh = 0.0,
         total_energy_wh = 0.0,
         ev_charger.vehicle_connected = False,
         ev_charger.vehicle_soc = 0.0,
         ev_charger.vehicle_target_soc = TARGET_SOC,
         session_start = None,
         last_update = time_now env \<rparr>"

text \<open>
  \<open>connect_vehicle\<close>. An argument left out is \<open>None\<close>; \<open>target_soc or self.TARGET_SOC\<close>
  takes the default also for a target of zero.
\<close>

definition connect_vehicle ::
  "real option \<Rightarrow> real option \<Rightarrow> ev_env \<Rightarrow> ev_charger \<Rightarrow> ev_charger" where
  "connect_vehicle initial_soc target_soc env ev =
     (let initial = (case initial_soc of None \<Rightarrow> soc_draw env | Some s \<Rightarrow> s);
          target = (case target_soc of
                      None \<Rightarrow> TARGET_SOC
                    | Some t \<Rightarrow> if t = 0 then TARGET_SOC else t)
      in ev\<lparr> ev_charger.vehicle_connected := True,
              ev_charger.vehicle_soc := min 100 (max 0 initial),
              ev_charger.vehicle_target_soc := target,
              ev_charger.session_energy_wh := 0.0,
              session_start := Some (now env),
              ev_charger.status := CHARGING \<rparr>)"

text \<open>\<open>disconnect_vehicle\<close>.\<close>

definition disconnect_vehicle :: "ev_charger \<Rightarrow> ev_charger" where
  "disconnect_vehicle ev =
     ev\<lparr> ev_charger.vehicle_connected := False,
          ev_charger.vehicle_soc := 0.0,
          ev_charger.power_w := 0.0,
          ev_charger.status := AVAILABLE,
          session_start := None \<rparr>"

text \<open>\<open>set_current_limit\<close>.\<close>

definition set_current_limit :: "real \<Rightarrow> ev_charger \<Rightarrow> ev_charger" where
  "set_current_limit current_a ev =
     ev\<lparr>current_limit := max MIN_CURRENT (min (max_current ev) current_a)\<rparr>"

text \<open>\<open>pause_charging\<close> and \<open>resume_charging\<close>.\<close>

definition pause_charging :: "ev_charger \<Rightarrow> ev_charger" where
  "pause_charging ev =
     (if ev_charger.status ev = CHARGING
      then ev\<lparr>ev_charger.status := SUSPENDED_EVSE, ev_charger.power_w := 0.0\<rparr>
      else ev)"

definition resume_charging :: "ev_charger \<Rightarrow> ev_charger" where
  "resume_charging ev =
     (if ev_charger.status ev = SUSPENDED_EVSE \<or> ev_charger.status ev = SUSPENDED_EV
      then (if ev_charger.vehicle_soc ev < ev_charger.vehicle_target_soc ev
            then ev\<lparr>ev_charger.status := CHARGING\<rparr> else ev)
      else ev)"

text \<open>
  \<open>_calculate_charging_power\<close>, in watts; \<open>variation\<close> is the draw
  \<open>random.uniform(0.98, 1.02)\<close>. The branch order is the source's.
\<close>

definition calculate_charging_power :: "real \<Rightarrow> ev_charger \<Rightarrow> real" where
  "calculate_charging_power variation ev =
     (if \<not> ev_charger.vehicle_connected ev then 0.0
      else if ev_charger.status ev \<noteq> CHARGING then 0.0
      else if ev_charger.vehicle_soc ev \<ge> ev_charger.vehicle_target_soc ev then 0.0
      else
        (let p0 = (current_limit ev * DEFAULT_VOLTAGE * 1.732) / 1000;
             p1 = (if ev_charger.vehicle_soc ev > 80
                   then (let taper_factor = (100 - ev_charger.vehicle_soc ev) / 20
                         in p0 * max 0.1 taper_factor)
                   else if ev_charger.vehicle_soc ev > 90 then p0 * 0.2
                   else p0);
             p2 = min p1 (ev_charger.max_power_kw ev);
             p3 = p2 * variation
         in p3 * 1000))"

text \<open>\<open>_status_string\<close> and \<open>get_status\<close>.\<close>

fun status_string :: "ChargerStatus \<Rightarrow> string" where
  "status_string AVAILABLE = ''available''"
| "status_string PREPARING = ''preparing''"
| "status_string CHARGING = ''charging''"
| "status_string SUSPENDED_EV = ''suspended_ev''"
| "status_string SUSPENDED_EVSE = ''suspended_evse''"
| "status_string FINISHING = ''finished''"
| "status_string RESERVED = ''reserved''"
| "status_string UNAVAILABLE = ''unavailable''"
| "status_string FAULTED = ''faulted''"

definition ev_get_status :: "ev_env \<Rightarrow> ev_charger \<Rightarrow> ev_status" where
  "ev_get_status env ev =
     (let session_minutes =
            (case session_start ev of
               Some t0 \<Rightarrow> (now env - t0) / 60
             | None \<Rightarrow> 0);
          hours =
            (if ev_charger.power_w ev > 0
                \<and> ev_charger.vehicle_soc ev < ev_charger.vehicle_target_soc ev
             then (let energy_needed_wh =
                         ((ev_charger.vehicle_target_soc ev - ev_charger.vehicle_soc ev) / 100)
                         * vehicle_capacity_kwh ev * 1000
                   in energy_needed_wh / ev_charger.power_w ev)
             else 0)
      in \<lparr> ev_status.status = status_string (ev_charger.status ev),
           status_code = status_code_of (ev_charger.status ev),
           ev_status.power_w = py_round 1 (ev_charger.power_w ev),
           ev_status.power_kw = py_round 3 (ev_charger.power_w ev / 1000),
           max_power_w = ev_charger.max_power_kw ev * 1000,
           current_limit_a = py_round 1 (current_limit ev),
           ev_status.vehicle_connected = ev_charger.vehicle_connected ev,
           ev_status.vehicle_soc = py_round 1 (ev_charger.vehicle_soc ev),
           ev_status.vehicle_target_soc = ev_charger.vehicle_target_soc ev,
           ev_status.session_energy_wh = py_round 1 (ev_charger.session_energy_wh ev),
           session_energy_kwh = py_round 3 (ev_charger.session_energy_wh ev / 1000),
           session_duration_min = py_round 1 session_minutes,
           hours_to_target = py_round 2 hours,
           total_energy_kwh = py_round 2 (total_energy_wh ev / 1000),
           ev_status.arrival_hour = ev_charger.arrival_hour ev,
           ev_status.departure_hour = ev_charger.departure_hour ev \<rparr>)"

text \<open>
  \<open>update\<close>, lines 219 to 236: a vehicle that is due and not connected is connected (with
  the defaults of \<open>connect_vehicle\<close>); a connected vehicle is disconnected in the hours
  the source tests.
\<close>

definition schedule_step :: "ev_env \<Rightarrow> ev_charger \<Rightarrow> ev_charger" where
  "schedule_step env ev =
     (if \<not> ev_charger.vehicle_connected ev then
        (if vehicle_due ev (current_hour env) then connect_vehicle None None env ev else ev)
      else
        (let should_disconnect =
               (if ev_charger.arrival_hour ev < ev_charger.departure_hour ev
                then current_hour env \<ge> ev_charger.departure_hour ev
                else ev_charger.departure_hour ev \<le> current_hour env
                     \<and> current_hour env < ev_charger.arrival_hour ev)
         in if should_disconnect then disconnect_vehicle ev else ev))"

text \<open>
  \<open>update\<close>, lines 242 to 254, entered when the power is positive. The division by the
  vehicle's capacity is unguarded; it is evaluated before any attribute is assigned.
\<close>

definition charge_step :: "real \<Rightarrow> ev_charger \<Rightarrow> py_error + ev_charger" where
  "charge_step dt_hours ev =
     (let energy_wh = ev_charger.power_w ev * dt_hours * CHARGING_EFFICIENCY
      in case py_div energy_wh (vehicle_capacity_kwh ev * 1000) of
           Inl e \<Rightarrow> Inl e
         | Inr q \<Rightarrow>
             (let soc_increase = q * 100;
                 ev1 = ev\<lparr> ev_charger.vehicle_soc :=
                              min 100 (ev_charger.vehicle_soc ev + soc_increase),
                           ev_charger.session_energy_wh :=
                              ev_charger.session_energy_wh ev + ev_charger.power_w ev * dt_hours,
                           total_energy_wh :=
                              total_energy_wh ev + ev_charger.power_w ev * dt_hours \<rparr>
              in Inr (if ev_charger.vehicle_soc ev1 \<ge> ev_charger.vehicle_target_soc ev1
                      then ev1\<lparr>ev_charger.status := FINISHING, ev_charger.power_w := 0.0\<rparr>
                      else ev1)))"

text \<open>
  \<open>update\<close>, up to the power calculation of line 239: the clock is read, the schedule is
  applied and the charging power is stored.
\<close>

definition power_step :: "ev_env \<Rightarrow> ev_charger \<Rightarrow> ev_charger" where
  "power_step env ev =
     (let ev1 = schedule_step env (ev\<lparr>last_update := time_now env\<rparr>)
      in ev1\<lparr>ev_charger.power_w := calculate_charging_power (power_draw env) ev1\<rparr>)"

text \<open>
  \<open>update\<close>: the status dictionary or the error raised, and the attributes as the call
  leaves them.
\<close>

definition ev_update :: "ev_env \<Rightarrow> ev_charger \<Rightarrow> (py_error + ev_status) \<times> ev_charger" where
  "ev_update env ev =
     (let dt_hours = (time_now env - last_update ev) / 3600.0;
          ev1 = power_step env ev
      in if ev_charger.power_w ev1 > 0 then
           (case charge_step dt_hours ev1 of
              Inl e \<Rightarrow> (Inl e, ev1)
            | Inr ev2 \<Rightarrow> (Inr (ev_get_status env ev2), ev2))
         else (Inr (ev_get_status env ev1), ev1))"

text \<open>
  Scenario inputs: a clock at 20 h, inside the default schedule (arrival 18, departure 7),
  with neutral draws; the clock one hour later; the server's 11 kW charger with a vehicle
  connected at 79.99 % for a target of 80 %; and a 3.7 kW charger.
\<close>

definition evening :: ev_env where
  "evening = \<lparr> time_now = 0, now = 0, current_hour = 20, soc_draw = 30, power_draw = 1 \<rparr>"

definition hour_later :: ev_env where
  "hour_later =
     \<lparr> time_now = 3600, now = 3600, current_hour = 21, soc_draw = 30, power_draw = 1 \<rparr>"

definition charger_11kw :: ev_charger where
  "charger_11kw =
     connect_vehicle (Some 79.99) (Some 80) evening (EVChargerSimulator 11 60.0 18 7 evening)"

definition charger_3_7kw :: ev_charger where
  "charger_3_7kw = EVChargerSimulator 3.7 60.0 18 7 evening"


section \<open>GridSimulator (orbiteos-simulators/src/grid_simulator.py)\<close>

record grid_meter =
  max_power_kw :: real
  import_energy_wh :: real
  export_energy_wh :: real
  power_w :: real
  reactive_power_var :: real
  voltage_l1 :: real
  voltage_l2 :: real
  voltage_l3 :: real
  current_l1 :: real
  current_l2 :: real
  current_l3 :: real
  frequency :: real
  power_factor :: real
  last_update :: real
  import_price :: real
  export_price :: real

text \<open>
  What one call of \<open>update\<close> reads from outside the object: \<open>time.time()\<close>, the hour of
  \<open>datetime.now()\<close>, the three draws \<open>random.uniform(-2, 2)\<close> of the voltages, the draw
  \<open>random.gauss(0, 0.02)\<close> of the frequency and the three draws of the phase imbalance.
\<close>

record grid_env =
  time_now :: real
  current_hour :: int
  voltage_draw_l1 :: real
  voltage_draw_l2 :: real
  voltage_draw_l3 :: real
  frequency_draw :: real
  current_draw_l1 :: real
  current_draw_l2 :: real
  current_draw_l3 :: real

text \<open>The dictionary returned by \<open>get_status\<close>.\<close>

record grid_status =
  power_w :: real
  reactive_power_var :: real
  voltage_l1 :: real
  voltage_l2 :: real
  voltage_l3 :: real
  voltage_avg :: real
  current_l1 :: real
  current_l2 :: real
  current_l3 :: real
  current_total :: real
  frequency :: real
  power_factor :: real
  import_energy_wh :: real
  export_energy_wh :: real
  import_energy_kwh :: real
  export_energy_kwh :: real
  mode :: string
  import_price_eur_kwh :: real
  export_price_eur_kwh :: real
  max_power_kw :: real

abbreviation NOMINAL_VOLTAGE :: real where "NOMINAL_VOLTAGE \<equiv> 230.0"
abbreviation NOMINAL_FREQUENCY :: real where "NOMINAL_FREQUENCY \<equiv> 50.0"
abbreviation VOLTAGE_MIN :: real where "VOLTAGE_MIN \<equiv> 207.0"
abbreviation VOLTAGE_MAX :: real where "VOLTAGE_MAX \<equiv> 253.0"
abbreviation FREQUENCY_MIN :: real where "FREQUENCY_MIN \<equiv> 49.5"
abbreviation FREQUENCY_MAX :: real where "FREQUENCY_MAX \<equiv> 50.5"

text \<open>\<open>__init__\<close>; the last argument is the reading of \<open>time.time()\<close>.\<close>

definition GridSimulator :: "real \<Rightarrow> real \<Rightarrow> real \<Rightarrow> real \<Rightarrow> grid_meter" where
  "GridSimulator max_power initial_import_kwh initial_export_kwh t =
     \<lparr> grid_meter.max_power_kw = max_power,
       grid_meter.import_energy_wh = initial_import_kwh * 1000,
       grid_meter.export_energy_wh = initial_export_kwh * 1000,
       grid_meter.power_w = 0.0,
       grid_meter.reactive_power_var = 0.0,
       grid_meter.voltage_l1 = NOMINAL_VOLTAGE,
       grid_meter.voltage_l2 = NOMINAL_VOLTAGE,
       grid_meter.voltage_l3 = NOMINAL_VOLTAGE,
       grid_meter.current_l1 = 0.0,
       grid_meter.current_l2 = 0.0,
       grid_meter.current_l3 = 0.0,
       grid_meter.frequency = NOMINAL_FREQUENCY,
       grid_meter.power_factor = 0.95,
       last_update = t,
       import_price = 0.25,
       export_price = 0.08 \<rparr>"

text \<open>\<open>_simulate_voltage\<close>.\<close>

definition simulate_voltage :: "grid_env \<Rightarrow> real \<times> real \<times> real" where
  "simulate_voltage env =
     (let hour = current_hour env;
          base_offset = (if 17 \<le> hour \<and> hour \<le> 21 then - 3.0
                         else if 2 \<le> hour \<and> hour \<le> 6 then 2.0
                         else 0.0);
          l1 = NOMINAL_VOLTAGE + base_offset + voltage_draw_l1 env;
          l2 = NOMINAL_VOLTAGE + base_offset + voltage_draw_l2 env - 0.5;
          l3 = NOMINAL_VOLTAGE + base_offset + voltage_draw_l3 env + 0.3
      in (py_round 1 (max VOLTAGE_MIN (min VOLTAGE_MAX l1)),
          py_round 1 (max VOLTAGE_MIN (min VOLTAGE_MAX l2)),
          py_round 1 (max VOLTAGE_MIN (min VOLTAGE_MAX l3))))"

text \<open>\<open>_simulate_frequency\<close>.\<close>

definition simulate_frequency :: "grid_env \<Rightarrow> real" where
  "simulate_frequency env =
     (let f = NOMINAL_FREQUENCY + frequency_draw env
      in max FREQUENCY_MIN (min FREQUENCY_MAX (py_round 3 f)))"

text \<open>
  \<open>_calculate_currents\<close>. The source guards the average voltage, not the power factor it
  also divides by.
\<close>

definition calculate_currents ::
  "grid_env \<Rightarrow> grid_meter \<Rightarrow> real \<Rightarrow> py_error + real \<times> real \<times> real" where
  "calculate_currents env g p_w =
     (let avg_voltage =
            (grid_meter.voltage_l1 g + grid_meter.voltage_l2 g + grid_meter.voltage_l3 g) / 3;
          power_per_phase = p_w / 3
      in case (if avg_voltage > 0
               then py_div \<bar>power_per_phase\<bar> (avg_voltage * grid_meter.power_factor g)
               else Inr 0) of
           Inl e \<Rightarrow> Inl e
         | Inr current_per_phase \<Rightarrow>
             Inr (py_round 2 (current_per_phase * current_draw_l1 env),
                  py_round 2 (current_per_phase * current_draw_l2 env),
                  py_round 2 (current_per_phase * current_draw_l3 env)))"

text \<open>
  \<open>_calculate_reactive_power\<close>; \<open>math.sqrt\<close> raises \<open>ValueError\<close> on a negative argument.
\<close>

definition calculate_reactive_power :: "grid_meter \<Rightarrow> real \<Rightarrow> py_error + real" where
  "calculate_reactive_power g active_power_w =
     (if grid_meter.power_factor g \<ge> 1.0 then Inr 0.0
      else if 1 - (grid_meter.power_factor g)\<^sup>2 < 0 then Inl ValueError
      else case py_div (sqrt (1 - (grid_meter.power_factor g)\<^sup>2)) (grid_meter.power_factor g) of
             Inl e \<Rightarrow> Inl e
           | Inr tan_phi \<Rightarrow>
               let reactive_power = \<bar>active_power_w\<bar> * tan_phi
               in if active_power_w > 0 then Inr (py_round 1 reactive_power)
                  else Inr (py_round 1 (- reactive_power)))"

text \<open>\<open>get_status\<close>.\<close>

definition grid_get_status :: "grid_meter \<Rightarrow> grid_status" where
  "grid_get_status g =
     \<lparr> grid_status.power_w = py_round 1 (grid_meter.power_w g),
       grid_status.reactive_power_var = grid_meter.reactive_power_var g,
       grid_status.voltage_l1 = grid_meter.voltage_l1 g,
       grid_status.voltage_l2 = grid_meter.voltage_l2 g,
       grid_status.voltage_l3 = grid_meter.voltage_l3 g,
       voltage_avg =
         py_round 1 ((grid_meter.voltage_l1 g + grid_meter.voltage_l2 g
                      + grid_meter.voltage_l3 g) / 3),
       grid_status.current_l1 = grid_meter.current_l1 g,
       grid_status.current_l2 = grid_meter.current_l2 g,
       grid_status.current_l3 = grid_meter.current_l3 g,
       current_total =
         py_round 2 (grid_meter.current_l1 g + grid_meter.current_l2 g
                     + grid_meter.current_l3 g),
       grid_status.frequency = grid_meter.frequency g,
       grid_status.power_factor = grid_meter.power_factor g,
       grid_status.import_energy_wh = py_round 1 (grid_meter.import_energy_wh g),
       grid_status.export_energy_wh = py_round 1 (grid_meter.export_energy_wh g),
       import_energy_kwh = py_round 3 (grid_meter.import_energy_wh g / 1000),
       export_energy_kwh = py_round 3 (grid_meter.export_energy_wh g / 1000),
       mode = (if grid_meter.power_w g > 50 then ''importing''
               else if grid_meter.power_w g < - 50 then ''exporting''
               else ''balanced''),
       import_price_eur_kwh = import_price g,
       export_price_eur_kwh = export_price g,
       grid_status.max_power_kw = grid_meter.max_power_kw g \<rparr>"

text \<open>\<open>update\<close>, lines 181 and 182: the net power is limited to the connection capacity.\<close>

definition limit_power :: "real \<Rightarrow> grid_meter \<Rightarrow> grid_meter" where
  "limit_power net_power_w g =
     (let max_power_w = grid_meter.max_power_kw g * 1000
      in g\<lparr>grid_meter.power_w := max (- max_power_w) (min max_power_w net_power_w)\<rparr>)"

text \<open>\<open>update\<close>, lines 185 to 194: the clock and the energy counters.\<close>

definition count_energy :: "grid_env \<Rightarrow> grid_meter \<Rightarrow> grid_meter" where
  "count_energy env g =
     (let dt_hours = (grid_env.time_now env - grid_meter.last_update g) / 3600.0;
          g1 = g\<lparr>grid_meter.last_update := grid_env.time_now env\<rparr>;
          energy_wh = \<bar>grid_meter.power_w g1\<bar> * dt_hours
      in if grid_meter.power_w g1 > 0
         then g1\<lparr>grid_meter.import_energy_wh := grid_meter.import_energy_wh g1 + energy_wh\<rparr>
         else g1\<lparr>grid_meter.export_energy_wh := grid_meter.export_energy_wh g1 + energy_wh\<rparr>)"

text \<open>\<open>update\<close>, lines 197 to 200: voltages and frequency.\<close>

definition measure_line :: "grid_env \<Rightarrow> grid_meter \<Rightarrow> grid_meter" where
  "measure_line env g =
     (case simulate_voltage env of
        (l1, l2, l3) \<Rightarrow>
          g\<lparr> grid_meter.voltage_l1 := l1,
              grid_meter.voltage_l2 := l2,
              grid_meter.voltage_l3 := l3,
              grid_meter.frequency := simulate_frequency env \<rparr>)"

text \<open>
  \<open>update\<close>: the status dictionary or the error raised, and the attributes as the call
  leaves them.
\<close>

definition grid_update ::
  "grid_env \<Rightarrow> real \<Rightarrow> grid_meter \<Rightarrow> (py_error + grid_status) \<times> grid_meter" where
  "grid_update env net_power_w g =
     (let g1 = measure_line env (count_energy env (limit_power net_power_w g))
      in case calculate_currents env g1 (grid_meter.power_w g1) of
           Inl e \<Rightarrow> (Inl e, g1)
         | Inr (i1, i2, i3) \<Rightarrow>
             (let g2 = g1\<lparr> grid_meter.current_l1 := i1,
                           grid_meter.current_l2 := i2,
                           grid_meter.current_l3 := i3 \<rparr>
              in (case calculate_reactive_power g2 (grid_meter.power_w g2) of
                    Inl e \<Rightarrow> (Inl e, g2)
                  | Inr q \<Rightarrow>
                      (let g3 = g2\<lparr>grid_meter.reactive_power_var := q\<rparr>
                       in (Inr (grid_get_status g3), g3)))))"

text \<open>\<open>set_prices\<close> and \<open>reset_energy_counters\<close>.\<close>

definition set_prices :: "real \<Rightarrow> real \<Rightarrow> grid_meter \<Rightarrow> grid_meter" where
  "set_prices new_import_price new_export_price g =
     g\<lparr>import_price := new_import_price, export_price := new_export_price\<rparr>"

definition reset_energy_counters :: "grid_meter \<Rightarrow> grid_meter" where
  "reset_energy_counters g =
     g\<lparr>grid_meter.import_energy_wh := 0.0, grid_meter.export_energy_wh := 0.0\<rparr>"

text \<open>
  Scenario inputs: a reading one second after the meter was built at time 0, at noon,
  with neutral draws; and the server's meter (25 kW connection).
\<close>

definition calm_second :: grid_env where
  "calm_second =
     \<lparr> grid_env.time_now = 1, grid_env.current_hour = 12,
       voltage_draw_l1 = 0, voltage_draw_l2 = 0, voltage_draw_l3 = 0,
       frequency_draw = 0,
       current_draw_l1 = 1, current_draw_l2 = 1, current_draw_l3 = 1 \<rparr>"

definition meter_25kw :: grid_meter where
  "meter_25kw = GridSimulator 25.0 0.0 0.0 0"


section \<open>SolarSimulator (orbiteos-simulators/src/solar_simulator.py)\<close>

text \<open>
  The instance attributes (the time zone only serves to localise a naive timestamp, which
  leaves the fields read here as they are). The latitude is the configuration value whose
  non-finite setting makes the model raise, so it is a \<open>py_float\<close>; the other attributes
  are taken finite.
\<close>

record solar_simulator =
  latitude :: py_float
  longitude :: real
  peak_power :: real
  panels :: int
  efficiency :: real

text \<open>What the simulator reads of a \<open>datetime\<close>: the day of the year and the time of day.\<close>

record datetime =
  tm_yday :: int
  hour :: int
  minute :: int
  second :: int

text \<open>
  The draws of one call of \<open>calculate_power_output\<close>: \<open>random.uniform(-0.2, 0.3)\<close> of
  \<open>get_cloud_cover\<close>, \<open>random.uniform(-2, 2)\<close> of \<open>get_ambient_temperature\<close> and
  \<open>random.uniform(0.97, 1.03)\<close> of the output.
\<close>

record solar_draws =
  cloud_draw :: real
  temp_draw :: real
  variation_draw :: real

definition radians :: "real \<Rightarrow> real" where
  "radians x = x * pi / 180"

definition degrees :: "real \<Rightarrow> real" where
  "degrees x = x * 180 / pi"

text \<open>\<open>__init__\<close>.\<close>

definition SolarSimulator ::
  "py_float \<Rightarrow> real \<Rightarrow> real \<Rightarrow> int \<Rightarrow> real \<Rightarrow> solar_simulator" where
  "SolarSimulator lat lon peak_power_kw n eff =
     \<lparr> latitude = lat, longitude = lon, peak_power = peak_power_kw, panels = n,
       efficiency = eff \<rparr>"

text \<open>
  \<open>calculate_solar_elevation\<close>. \<open>math.radians\<close> passes an infinity on and \<open>math.sin\<close> of
  an infinity raises \<open>ValueError\<close> (math domain error). A NaN goes through \<open>sin\<close>, \<open>asin\<close>
  and \<open>degrees\<close> without an error, and \<open>max(0, nan)\<close> is 0. For a finite latitude
  \<open>math.asin\<close>, which raises outside [-1, 1], gets an argument inside that interval
  (lemma \<open>asin_argument_in_domain\<close> below).
\<close>

definition calculate_solar_elevation :: "solar_simulator \<Rightarrow> datetime \<Rightarrow> py_error + real" where
  "calculate_solar_elevation s ts =
     (let day = real_of_int (tm_yday ts);
          declination = 23.45 * sin (radians (360 / 365 * (day - 81)));
          solar_time = real_of_int (hour ts) + real_of_int (minute ts) / 60
                       + real_of_int (second ts) / 3600;
          hour_angle = 15 * (solar_time - 12);
          dec_rad = radians declination;
          hour_rad = radians hour_angle
      in case latitude s of
           Infinity \<Rightarrow> Inl ValueError
         | NaN \<Rightarrow> Inr 0
         | Finite lat \<Rightarrow>
             (let lat_rad = radians lat;
                  elevation = degrees (arcsin (sin lat_rad * sin dec_rad
                                               + cos lat_rad * cos dec_rad * cos hour_rad))
              in Inr (max 0 elevation)))"

text \<open>\<open>calculate_solar_azimuth\<close>; Python's \<open>%\<close> on floats takes the sign of the divisor.\<close>

definition py_fmod :: "real \<Rightarrow> real \<Rightarrow> real" where
  "py_fmod x m = x - m * real_of_int \<lfloor>x / m\<rfloor>"

definition calculate_solar_azimuth :: "solar_simulator \<Rightarrow> datetime \<Rightarrow> real" where
  "calculate_solar_azimuth s ts =
     (let solar_time = real_of_int (hour ts) + real_of_int (minute ts) / 60;
          hour_angle = 15 * (solar_time - 12);
          azimuth = (if hour_angle < 0 then 90 + hour_angle else 180 + hour_angle)
      in py_fmod azimuth 360)"

text \<open>\<open>get_cloud_cover\<close> and \<open>get_ambient_temperature\<close>, each with its draw.\<close>

definition get_cloud_cover :: "real \<Rightarrow> real" where
  "get_cloud_cover cloud_variation =
     (let base_cloud = 0.3 in max 0.0 (min 1.0 (base_cloud + cloud_variation)))"

definition get_ambient_temperature :: "datetime \<Rightarrow> real \<Rightarrow> real" where
  "get_ambient_temperature ts draw =
     (if 6 \<le> hour ts \<and> hour ts < 12 then 10 + real_of_int (hour ts - 6) * 2
      else if 12 \<le> hour ts \<and> hour ts < 18 then 22 - real_of_int (hour ts - 12) * 1.5
      else 8 + draw)"

text \<open>
  \<open>calculate_power_output\<close>, in kW. The argument \<open>cloud_cover\<close> is \<open>None\<close> or a fraction;
  the output variation is drawn in every call that gets past the night test.
\<close>

definition calculate_power_output ::
  "solar_simulator \<Rightarrow> datetime \<Rightarrow> real option \<Rightarrow> solar_draws \<Rightarrow> py_error + real" where
  "calculate_power_output s ts cloud_cover d =
     (case calculate_solar_elevation s ts of
        Inl e \<Rightarrow> Inl e
      | Inr elevation \<Rightarrow>
          if elevation \<le> 0 then Inr 0.0
          else
            (let base_irradiance = 1000 * sin (radians elevation);
                 cloud = (case cloud_cover of
                            None \<Rightarrow> get_cloud_cover (cloud_draw d)
                          | Some c \<Rightarrow> c);
                 cloud_factor = 1.0 - (cloud * 0.8);
                 temp = get_ambient_temperature ts (temp_draw d);
                 temp_factor = 1.0 - (max 0 (temp - 25) * 0.004);
                 irradiance = base_irradiance * cloud_factor;
                 p_kw = (irradiance / 1000) * peak_power s * temp_factor * efficiency s;
                 variation = variation_draw d
             in Inr (py_round 3 (max 0 (p_kw * variation)))))"

text \<open>
  The fields of \<open>get_current_status\<close> that are numbers or truth values (the timestamp
  string and the nested system description are left out). The call draws a second cloud
  cover and a second temperature for the report.
\<close>

record solar_status =
  power_kw :: real
  power_w :: real
  sun_elevation :: real
  sun_azimuth :: real
  cloud_cover_percent :: real
  ambient_temp_c :: real
  daylight :: bool

definition get_current_status ::
  "solar_simulator \<Rightarrow> datetime \<Rightarrow> solar_draws \<Rightarrow> real \<Rightarrow> real \<Rightarrow> py_error + solar_status"
  where
  "get_current_status s ts d cloud_draw2 temp_draw2 =
     (case calculate_power_output s ts None d of
        Inl e \<Rightarrow> Inl e
      | Inr p \<Rightarrow>
          (case calculate_solar_elevation s ts of
             Inl e \<Rightarrow> Inl e
           | Inr elevation \<Rightarrow>
               (let azimuth = calculate_solar_azimuth s ts;
                    cloud = get_cloud_cover cloud_draw2;
                    temp = get_ambient_temperature ts temp_draw2
                in Inr \<lparr> solar_status.power_kw = p,
                         solar_status.power_w = py_round 1 (p * 1000),
                         sun_elevation = py_round 2 elevation,
                         sun_azimuth = py_round 2 azimuth,
                         cloud_cover_percent = py_round 1 (cloud * 100),
                         ambient_temp_c = py_round 1 temp,
                         daylight = (elevation > 0) \<rparr>)))"

text \<open>
  Scenario inputs: a 6 kW array with efficiency 0.85 on the equator, at noon and at
  midnight of day 81 (where the declination is zero), and two draws that differ in the
  output variation only.
\<close>

definition equator_array :: solar_simulator where
  "equator_array = SolarSimulator (Finite 0) 0 6.0 20 0.85"

definition equinox_noon :: datetime where
  "equinox_noon = \<lparr> tm_yday = 81, hour = 12, minute = 0, second = 0 \<rparr>"

definition equinox_midnight :: datetime where
  "equinox_midnight = \<lparr> tm_yday = 81, hour = 0, minute = 0, second = 0 \<rparr>"

definition low_draw :: solar_draws where
  "low_draw = \<lparr> cloud_draw = 0, temp_draw = 0, variation_draw = 0.97 \<rparr>"

definition high_draw :: solar_draws where
  "high_draw = \<lparr> cloud_draw = 0, temp_draw = 0, variation_draw = 1.03 \<rparr>"


section \<open>ModbusSimulatorServer (orbiteos-simulators/src/main.py)\<close>

text \<open>The dictionaries returned by the four \<open>update_*_registers\<close> methods.\<close>

record solar_data =
  power_w :: int
  energy_wh :: int
  voltage_v :: real
  current_a :: real
  status :: int

record battery_data =
  soc :: real
  power_w :: int
  voltage_v :: real
  current_a :: real
  temperature_c :: real
  status :: int

record grid_data =
  power_w :: real
  voltage_v :: real
  frequency_hz :: real
  import_energy_wh :: real
  export_energy_wh :: real

record ev_data =
  power_w :: real
  session_energy_wh :: real
  vehicle_soc :: real
  status :: string
  status_code :: int

text \<open>
  The \<open>telemetry\<close> dictionary of one pass of the loop, with its keys \<open>solar\<close>,
  \<open>battery\<close>, \<open>grid\<close> and \<open>ev\<close>.
\<close>

record telemetry =
  solar_part :: solar_data
  battery_part :: battery_data
  grid_part :: grid_data
  ev_part :: ev_data

text \<open>
  The server object: the four simulators (\<open>self.solar\<close>, \<open>self.battery\<close>, \<open>self.grid\<close>,
  \<open>self.ev\<close>), the energy accumulator, the time of the last
  completed pass and the holding registers of the four units (each unit's block is read
  and written as one list). Publishing is a list of the telemetry handed to the MQTT
  client with the home consumption computed for it; the error log is the list of
  exceptions the loop has reported with \<open>logger.error\<close>.
\<close>

record server =
  solar_sim :: solar_simulator
  battery_sim :: battery
  grid_sim :: grid_meter
  ev_sim :: ev_charger
  solar_energy_wh :: real
  last_update :: real
  hr_solar :: "int list"
  hr_battery :: "int list"
  hr_grid :: "int list"
  hr_ev :: "int list"
  mqtt_connected :: bool
  published :: "(telemetry \<times> int) list"
  error_log :: "py_error list"

text \<open>
  What one pass of the loop reads from outside the server: the clock and the draws of the
  solar status, the reading of \<open>time.time()\<close> in \<open>update_solar_registers\<close>, the readings
  of the charger, the voltage draw of the battery, the readings of the grid meter and the
  reading of \<open>time.time()\<close> that closes the pass; and \<open>float_error u r\<close>, the rounding error
  of the float arithmetic whose result \<open>int()\<close> truncates for register \<open>r\<close> of unit \<open>u\<close>
  (1 solar, 2 battery, 3 grid, 4 charger). The values that \<open>int()\<close> takes directly from a
  status dictionary are results of \<open>round\<close> and carry no such error.
\<close>

record tick_env =
  solar_clock :: datetime
  solar_rand :: solar_draws
  report_cloud_draw :: real
  report_temp_draw :: real
  solar_time :: real
  ev_reads :: ev_env
  battery_draw :: real
  grid_reads :: grid_env
  end_time :: real
  float_error :: "nat \<Rightarrow> nat \<Rightarrow> real"

text \<open>
  \<open>update_solar_registers\<close>. An exception of \<open>get_current_status\<close> leaves the method before
  anything is assigned. The division by the bus voltage is guarded.
\<close>

definition update_solar_registers ::
  "tick_env \<Rightarrow> server \<Rightarrow> (py_error + solar_data) \<times> server" where
  "update_solar_registers env S =
     (case get_current_status (solar_sim S) (solar_clock env) (solar_rand env)
             (report_cloud_draw env) (report_temp_draw env) of
        Inl e \<Rightarrow> (Inl e, S)
      | Inr st \<Rightarrow>
          (let p_w = py_int (solar_status.power_w st);
               dt_hours = (solar_time env - server.last_update S) / 3600.0;
               energy = server.solar_energy_wh S + real_of_int p_w * dt_hours;
               hr0 = hr_solar S;
               hr1 = hr0[0 := fst (int32_to_registers p_w), 1 := snd (int32_to_registers p_w)];
               hr2 = hr1[2 := fst (uint32_to_registers (py_int energy)),
                         3 := snd (uint32_to_registers (py_int energy))];
               hr3 = hr2[4 := py_int (float_result (float_error env 1 4)
                                        (380 + (real_of_int p_w / 1000) * 20)) * 10];
               v = real_of_int (hr3 ! 4) / 10;
               hr4 = hr3[5 := (if v > 0
                               then py_int (float_result (float_error env 1 5)
                                              ((real_of_int p_w / v) * 10))
                               else 0)];
               hr5 = hr4[6 := (if p_w > 0 then 1 else 0)]
           in (Inr \<lparr> solar_data.power_w = p_w,
                      solar_data.energy_wh = py_int energy,
                      solar_data.voltage_v = real_of_int (hr5 ! 4) / 10,
                      solar_data.current_a = real_of_int (hr5 ! 5) / 10,
                      solar_data.status = hr5 ! 6 \<rparr>,
               S\<lparr>server.solar_energy_wh := energy, hr_solar := hr5\<rparr>)))"

text \<open>
  The register writes of \<open>update_battery_registers\<close> for a status dictionary, and the
  dictionary the method returns. \<open>power_w\<close> is computed once, as \<open>int(status['power_kw'] *
  1000)\<close>, and used for the registers, the status register and the dictionary.
\<close>

definition battery_registers :: "(nat \<Rightarrow> real) \<Rightarrow> battery_status \<Rightarrow> int list \<Rightarrow> int list" where
  "battery_registers err st hr =
     (let p_w = py_int (float_result (err 1) (battery_status.power_kw st * 1000));
          capacity_wh = py_int (float_result (err 7) (battery_status.capacity_kwh st * 1000));
          charge_limit = py_int (float_result (err 9) (max_charge_power_kw st * 1000));
          discharge_limit = py_int (float_result (err 11) (max_discharge_power_kw st * 1000))
      in hr[0 := py_int (battery_status.soc st),
            1 := fst (int32_to_registers p_w),
            2 := snd (int32_to_registers p_w),
            3 := py_int (float_result (err 3) (battery_status.voltage st * 10)),
            4 := py_int (float_result (err 4) (battery_status.current st * 10)),
            5 := py_int (float_result (err 5) (battery_status.temperature st * 10)),
            6 := (if \<bar>p_w\<bar> < 50 then 0 else if p_w < 0 then 1 else 2),
            7 := fst (uint32_to_registers capacity_wh),
            8 := snd (uint32_to_registers capacity_wh),
            9 := fst (int32_to_registers charge_limit),
            10 := snd (int32_to_registers charge_limit),
            11 := fst (int32_to_registers discharge_limit),
            12 := snd (int32_to_registers discharge_limit)])"

definition battery_report :: "(nat \<Rightarrow> real) \<Rightarrow> battery_status \<Rightarrow> int list \<Rightarrow> battery_data" where
  "battery_report err st hr =
     \<lparr> battery_data.soc = battery_status.soc st,
       battery_data.power_w = py_int (float_result (err 1) (battery_status.power_kw st * 1000)),
       battery_data.voltage_v = battery_status.voltage st,
       battery_data.current_a = battery_status.current st,
       battery_data.temperature_c = battery_status.temperature st,
       battery_data.status = hr ! 6 \<rparr>"

text \<open>
  \<open>update_battery_registers\<close>: the battery is asked for the load not covered by the sun,
  over one second. An exception of \<open>update\<close> leaves the method before any register is
  written.
\<close>

definition update_battery_registers ::
  "tick_env \<Rightarrow> int \<Rightarrow> real \<Rightarrow> server \<Rightarrow> (py_error + battery_data) \<times> server" where
  "update_battery_registers env solar_power_w load_power_w S =
     (let net_power = load_power_w - real_of_int solar_power_w
      in case battery_update (battery_draw env) (net_power / 1000.0) 1.0 (battery_sim S) of
           (Inl e, b) \<Rightarrow> (Inl e, S\<lparr>battery_sim := b\<rparr>)
         | (Inr st, b) \<Rightarrow>
             (let hr = battery_registers (float_error env 2) st (hr_battery S)
              in (Inr (battery_report (float_error env 2) st hr),
                  S\<lparr>battery_sim := b, hr_battery := hr\<rparr>)))"

text \<open>The register writes and the dictionary of \<open>update_grid_registers\<close>.\<close>

definition grid_registers :: "(nat \<Rightarrow> real) \<Rightarrow> grid_status \<Rightarrow> int list \<Rightarrow> int list" where
  "grid_registers err st hr =
     hr[0 := fst (int32_to_registers (py_int (grid_status.power_w st))),
        1 := snd (int32_to_registers (py_int (grid_status.power_w st))),
        2 := fst (int32_to_registers (py_int (grid_status.reactive_power_var st))),
        3 := snd (int32_to_registers (py_int (grid_status.reactive_power_var st))),
        4 := py_int (float_result (err 4) (grid_status.voltage_l1 st * 10)),
        5 := py_int (float_result (err 5) (grid_status.voltage_l2 st * 10)),
        6 := py_int (float_result (err 6) (grid_status.voltage_l3 st * 10)),
        7 := py_int (float_result (err 7) (grid_status.current_l1 st * 100)),
        8 := py_int (float_result (err 8) (grid_status.current_l2 st * 100)),
        9 := py_int (float_result (err 9) (grid_status.current_l3 st * 100)),
        10 := py_int (float_result (err 10) (grid_status.frequency st * 100)),
        11 := fst (uint32_to_registers (py_int (grid_status.import_energy_wh st))),
        12 := snd (uint32_to_registers (py_int (grid_status.import_energy_wh st))),
        13 := fst (uint32_to_registers (py_int (grid_status.export_energy_wh st))),
        14 := snd (uint32_to_registers (py_int (grid_status.export_energy_wh st)))]"

definition grid_report :: "grid_status \<Rightarrow> grid_data" where
  "grid_report st =
     \<lparr> grid_data.power_w = grid_status.power_w st,
       grid_data.voltage_v = grid_status.voltage_l1 st,
       grid_data.frequency_hz = grid_status.frequency st,
       grid_data.import_energy_wh = grid_status.import_energy_wh st,
       grid_data.export_energy_wh = grid_status.export_energy_wh st \<rparr>"

text \<open>\<open>update_grid_registers\<close>, called with an integer number of watts.\<close>

definition update_grid_registers ::
  "tick_env \<Rightarrow> int \<Rightarrow> server \<Rightarrow> (py_error + grid_data) \<times> server" where
  "update_grid_registers env net_power_w S =
     (case grid_update (grid_reads env) (real_of_int net_power_w) (grid_sim S) of
        (Inl e, g) \<Rightarrow> (Inl e, S\<lparr>grid_sim := g\<rparr>)
      | (Inr st, g) \<Rightarrow>
          (Inr (grid_report st),
           S\<lparr>grid_sim := g, hr_grid := grid_registers (float_error env 3) st (hr_grid S)\<rparr>))"

text \<open>
  The register writes and the dictionary of \<open>update_ev_registers\<close>. \<open>status['max_power_w']\<close>
  is the product \<open>max_power_kw * 1000\<close> of \<open>get_status\<close>.
\<close>

definition ev_registers :: "(nat \<Rightarrow> real) \<Rightarrow> ev_status \<Rightarrow> int list \<Rightarrow> int list" where
  "ev_registers err st hr =
     hr[0 := fst (int32_to_registers (py_int (ev_status.power_w st))),
        1 := snd (int32_to_registers (py_int (ev_status.power_w st))),
        2 := fst (uint32_to_registers (py_int (ev_status.session_energy_wh st))),
        3 := snd (uint32_to_registers (py_int (ev_status.session_energy_wh st))),
        4 := py_int (ev_status.vehicle_soc st),
        5 := ev_status.status_code st,
        6 := fst (int32_to_registers (py_int (float_result (err 6) (max_power_w st)))),
        7 := snd (int32_to_registers (py_int (float_result (err 6) (max_power_w st)))),
        8 := py_int (float_result (err 8) (current_limit_a st * 10))]"

definition ev_report :: "ev_status \<Rightarrow> ev_data" where
  "ev_report st =
     \<lparr> ev_data.power_w = ev_status.power_w st,
       ev_data.session_energy_wh = ev_status.session_energy_wh st,
       ev_data.vehicle_soc = ev_status.vehicle_soc st,
       ev_data.status = ev_status.status st,
       ev_data.status_code = ev_status.status_code st \<rparr>"

text \<open>\<open>update_ev_registers\<close>.\<close>

definition update_ev_registers :: "tick_env \<Rightarrow> server \<Rightarrow> (py_error + ev_data) \<times> server" where
  "update_ev_registers env S =
     (case ev_update (ev_reads env) (ev_sim S) of
        (Inl e, c) \<Rightarrow> (Inl e, S\<lparr>ev_sim := c\<rparr>)
      | (Inr st, c) \<Rightarrow>
          (Inr (ev_report st),
           S\<lparr>ev_sim := c, hr_ev := ev_registers (float_error env 4) st (hr_ev S)\<rparr>))"

text \<open>\<open>_calculate_consumption\<close> and \<open>publish_telemetry\<close>.\<close>

definition calculate_consumption :: "telemetry \<Rightarrow> int" where
  "calculate_consumption t =
     (let consumption =
            real_of_int (solar_data.power_w (solar_part t))
            + real_of_int (battery_data.power_w (battery_part t))
            + grid_data.power_w (grid_part t)
            - ev_data.power_w (ev_part t)
      in max 0 (py_int consumption))"

definition publish_telemetry :: "telemetry \<Rightarrow> server \<Rightarrow> server" where
  "publish_telemetry t S =
     (if \<not> mqtt_connected S then S
      else S\<lparr>published := published S @ [(t, calculate_consumption t)]\<rparr>)"

text \<open>The simulated house load of \<open>update_loop\<close>, in watts.\<close>

abbreviation base_load_w :: real where "base_load_w \<equiv> 800"

text \<open>
  The body of the \<open>try\<close> statement of \<open>update_loop\<close>, lines 442 to 482: the four updates
  in the source's order, the publication and the time stamp. An exception ends the body
  where it is raised. A pass that completes yields its telemetry and the integer it gave
  to \<open>update_grid_registers\<close>.
\<close>

definition try_body :: "tick_env \<Rightarrow> server \<Rightarrow> (py_error + telemetry \<times> int) \<times> server" where
  "try_body env S =
     (case update_solar_registers env S of
        (Inl e, S1) \<Rightarrow> (Inl e, S1)
      | (Inr solar_d, S1) \<Rightarrow>
          (case update_ev_registers env S1 of
             (Inl e, S2) \<Rightarrow> (Inl e, S2)
           | (Inr ev_d, S2) \<Rightarrow>
               (let total_load_w = base_load_w + ev_data.power_w ev_d
                in (case update_battery_registers env (solar_data.power_w solar_d)
                           total_load_w S2 of
                      (Inl e, S3) \<Rightarrow> (Inl e, S3)
                    | (Inr battery_d, S3) \<Rightarrow>
                        (let net_grid_w =
                               total_load_w - real_of_int (solar_data.power_w solar_d)
                               - real_of_int (battery_data.power_w battery_d)
                         in (case update_grid_registers env (py_int net_grid_w) S3 of
                               (Inl e, S4) \<Rightarrow> (Inl e, S4)
                             | (Inr grid_d, S4) \<Rightarrow>
                                 (let t = \<lparr> solar_part = solar_d,
                                            battery_part = battery_d,
                                            grid_part = grid_d,
                                            ev_part = ev_d \<rparr>;
                                      S5 = publish_telemetry t S4
                                  in (Inr (t, py_int net_grid_w),
                                      S5\<lparr>server.last_update := end_time env\<rparr>))))))))"

text \<open>
  One pass of the loop: the \<open>try\<close> body, and the handler \<open>except Exception\<close> that reports
  the exception and lets the loop go on.
\<close>

definition tick :: "tick_env \<Rightarrow> server \<Rightarrow> (py_error + telemetry \<times> int) \<times> server" where
  "tick env S =
     (case try_body env S of
        (Inl e, S') \<Rightarrow> (Inl e, S'\<lparr>error_log := error_log S' @ [e]\<rparr>)
      | (Inr r, S') \<Rightarrow> (Inr r, S'))"


text \<open>
  \<open>__init__\<close> for the values the module reads from the environment, with the draws and
  clock readings of the constructors it calls; every register starts at zero.
\<close>

definition ModbusSimulatorServer ::
  "py_float \<Rightarrow> real \<Rightarrow> real \<Rightarrow> real \<Rightarrow> real \<Rightarrow> real \<Rightarrow> ev_env \<Rightarrow> real \<Rightarrow> server" where
  "ModbusSimulatorServer lat lon solar_peak_kw battery_kwh ev_kw battery_variation env t =
     \<lparr> solar_sim = SolarSimulator lat lon solar_peak_kw 20 0.85,
       battery_sim = BatterySimulator battery_kwh 5.0 50.0 MIN_SOC MAX_SOC battery_variation,
       grid_sim = GridSimulator 25.0 0.0 0.0 t,
       ev_sim = EVChargerSimulator ev_kw 60.0 18 7 env,
       server.solar_energy_wh = 0.0,
       server.last_update = t,
       hr_solar = replicate 100 0,
       hr_battery = replicate 100 0,
       hr_grid = replicate 100 0,
       hr_ev = replicate 100 0,
       mqtt_connected = False,
       published = [],
       error_log = [] \<rparr>"

text \<open>
  Scenario inputs: one pass at midnight of day 81, one second after the server was built,
  with neutral draws and no rounding error; the server with its default ratings on the
  equator; the same server configured with a battery capacity of 0 kWh; and the same
  server configured with the latitude \<open>inf\<close>.
\<close>

definition midnight_reads :: ev_env where
  "midnight_reads =
     \<lparr> ev_env.time_now = 1, now = 1, ev_env.current_hour = 0, soc_draw = 30, power_draw = 1 \<rparr>"

definition midnight_pass :: tick_env where
  "midnight_pass =
     \<lparr> solar_clock = equinox_midnight,
       solar_rand = low_draw,
       report_cloud_draw = 0,
       report_temp_draw = 0,
       solar_time = 1,
       ev_reads = midnight_reads,
       battery_draw = 1,
       grid_reads = calm_second\<lparr>grid_env.current_hour := 0\<rparr>,
       end_time = 1,
       float_error = (\<lambda>u r. 0) \<rparr>"

definition default_server :: server where
  "default_server =
     ModbusSimulatorServer (Finite 0) 0 6.0 13.5 11 1 (midnight_reads\<lparr>ev_env.time_now := 0, now := 0\<rparr>) 0"

definition no_capacity_server :: server where
  "no_capacity_server =
     ModbusSimulatorServer (Finite 0) 0 6.0 0 11 1 (midnight_reads\<lparr>ev_env.time_now := 0, now := 0\<rparr>) 0"

definition infinite_latitude_server :: server where
  "infinite_latitude_server =
     ModbusSimulatorServer Infinity 0 6.0 13.5 11 1 (midnight_reads\<lparr>ev_env.time_now := 0, now := 0\<rparr>) 0"


section \<open>Facts about the register encoding\<close>

lemma and_ffff: "(x::int) AND 0xFFFF = x mod 65536"
proof -
  have "(0xFFFF::int) = mask 16"
    by (simp add: mask_eq_exp_minus_1)
  then show ?thesis
    by (simp only: flip: take_bit_eq_mask) (simp add: take_bit_eq_mod)
qed

lemma and_ffffffff: "(x::int) AND 0xFFFFFFFF = x mod 4294967296"
proof -
  have "(0xFFFFFFFF::int) = mask 32"
    by (simp add: mask_eq_exp_minus_1)
  then show ?thesis
    by (simp only: flip: take_bit_eq_mask) (simp add: take_bit_eq_mod)
qed

lemma cell_mod: "is_cell (x mod 65536)"
  by (simp add: is_cell_def)

lemma split_words:
  "registers_to_uint32 ((drop_bit 16 v) AND 0xFFFF, v AND 0xFFFF) = Some (v mod 4294967296)"
proof -
  have "v mod (65536 * 65536) = 65536 * (v div 65536 mod 65536) + v mod 65536"
    by (rule zmod_zmult2_eq) simp
  then show ?thesis
    by (simp add: registers_to_uint32_def and_ffff drop_bit_eq_div cell_mod)
qed

lemma uint32_pattern:
  "registers_to_uint32 (uint32_to_registers v) = Some (v mod 4294967296)"
  by (simp add: uint32_to_registers_def Let_def split_words and_ffffffff)

lemma int32_pattern:
  "registers_to_uint32 (int32_to_registers v) = Some (v mod 4294967296)"
proof (cases "v < 0")
  case True
  have "(v + 4294967296) mod 4294967296 = v mod 4294967296"
    by simp
  with True show ?thesis
    by (simp add: int32_to_registers_def Let_def split_words)
next
  case False
  then show ?thesis
    by (simp add: int32_to_registers_def Let_def split_words)
qed

lemma register_cells_16bit:
  "is_cell (fst (int32_to_registers v))" "is_cell (snd (int32_to_registers v))"
  "is_cell (fst (uint32_to_registers v))" "is_cell (snd (uint32_to_registers v))"
  by (simp_all add: int32_to_registers_def uint32_to_registers_def Let_def and_ffff cell_mod)

lemma int32_roundtrip:
  assumes "- 2147483648 \<le> v" and "v < 2147483648"
  shows "registers_to_int32 (int32_to_registers v) = Some v"
proof (cases "v < 0")
  case True
  from True assms have "(v + 4294967296) mod 4294967296 = v + 4294967296"
    by (intro mod_pos_pos_trivial) simp_all
  then have "v mod 4294967296 = v + 4294967296"
    by simp
  with True assms show ?thesis
    by (simp add: registers_to_int32_def int32_pattern)
next
  case False
  with assms have "v mod 4294967296 = v"
    by simp
  with False assms show ?thesis
    by (simp add: registers_to_int32_def int32_pattern)
qed

lemma encoded_examples:
  "int32_to_registers (- 5000) = (65535, 60536)"
  "uint32_to_registers 3000000000 = (45776, 24064)"
  "uint32_to_registers 4294967296 = (0, 0)"
  "int32_to_registers 2147483648 = (32768, 0)"
  by (simp_all add: int32_to_registers_def uint32_to_registers_def Let_def and_ffff
      and_ffffffff drop_bit_eq_div)


section \<open>Claims about the register encoding\<close>

text \<open>
  C3. Both encoders return two 16-bit cells (each value is in 0..65535). Every signed
  value in the 32-bit range encoded by \<open>_int32_to_registers\<close>, and every unsigned value in
  the 32-bit range encoded by \<open>_uint32_to_registers\<close>, is recovered by recombining the two
  cells big-endian (and, for the signed field, reading the pattern as two's complement):
  decoding the encoding gives the value back.
\<close>

theorem C3_register_roundtrip:
  "is_cell (fst (int32_to_registers v)) \<and> is_cell (snd (int32_to_registers v)) \<and>
   is_cell (fst (uint32_to_registers u)) \<and> is_cell (snd (uint32_to_registers u)) \<and>
   (- 2147483648 \<le> v \<and> v < 2147483648 \<longrightarrow>
      registers_to_int32 (int32_to_registers v) = Some v) \<and>
   (0 \<le> u \<and> u < 4294967296 \<longrightarrow>
      registers_to_uint32 (uint32_to_registers u) = Some u)"
  by (simp add: register_cells_16bit int32_roundtrip uint32_pattern)

theorem C3_register_roundtrip_witness:
  "int32_to_registers (- 5000) = (65535, 60536) \<and>
   registers_to_int32 (int32_to_registers (- 5000)) = Some (- 5000) \<and>
   uint32_to_registers 3000000000 = (45776, 24064) \<and>
   registers_to_uint32 (uint32_to_registers 3000000000) = Some 3000000000"
  using C3_register_roundtrip [of "- 5000" 3000000000]
  by (simp add: encoded_examples)

text \<open>
  C7 (as claimed: an out-of-range value is clamped to the nearest representable bound and
  flagged). The encoders do neither: \<open>2^32\<close> in an unsigned field is stored as (0, 0), which
  reads 0, and \<open>2^31\<close> in a signed field is stored as (32768, 0), the pattern of \<open>-2^31\<close>.
\<close>

theorem C7_no_clamp_counterexample:
  "uint32_to_registers 4294967296 = (0, 0) \<and>
   registers_to_uint32 (uint32_to_registers 4294967296) = Some 0 \<and>
   registers_to_uint32 (uint32_to_registers 4294967296) \<noteq> Some (clamp_uint32 4294967296) \<and>
   int32_to_registers 2147483648 = (32768, 0) \<and>
   registers_to_int32 (int32_to_registers 2147483648) = Some (- 2147483648) \<and>
   registers_to_int32 (int32_to_registers 2147483648) \<noteq> Some (clamp_int32 2147483648)"
  by (simp add: encoded_examples registers_to_uint32_def registers_to_int32_def is_cell_def
      clamp_uint32_def clamp_int32_def)

text \<open>
  C7 (amended). For every integer, in range or not, both encoders store the two 16-bit
  halves of the value reduced modulo \<open>2^32\<close>: each of the two results is in 0..65535, and
  recombined they read as the value modulo \<open>2^32\<close>, so an out-of-range value wraps around.
  The result is the bare register pair; nothing in it marks the sample.
\<close>

theorem C7_encoding_wraps:
  "registers_to_uint32 (uint32_to_registers v) = Some (v mod 2 ^ 32) \<and>
   registers_to_uint32 (int32_to_registers v) = Some (v mod 2 ^ 32) \<and>
   is_cell (fst (uint32_to_registers v)) \<and> is_cell (snd (uint32_to_registers v)) \<and>
   is_cell (fst (int32_to_registers v)) \<and> is_cell (snd (int32_to_registers v))"
  by (simp add: uint32_pattern int32_pattern register_cells_16bit)


section \<open>Facts about the battery\<close>

lemmas battery_defs =
  battery_update_def BatterySimulator_def constrain_power_def get_power_limit_def
  get_efficiency_def integrate_energy_def py_div_def clamp_soc_def count_cycle_def
  measure_voltage_def measure_current_def calculate_voltage_def calculate_temperature_def
  store_power_def battery_get_status_def calculate_health_def get_state_string_def
  py_round_def round_half_even_def set_soc_def powerwall_def powerwall_low_def

lemma integrate_energy_window:
  "integrate_energy b c a dt eff = Inr b1 \<Longrightarrow>
   battery.min_soc b1 = battery.min_soc b \<and> battery.max_soc b1 = battery.max_soc b"
  by (auto simp: integrate_energy_def Let_def py_div_def split: if_splits sum.splits)

lemma stage_soc [simp]:
  "battery.soc (count_cycle a dt b) = battery.soc b"
  "battery.soc (measure_voltage v b) = battery.soc b"
  "battery.soc (measure_current a b) = battery.soc b"
  "battery.soc (store_power c a b) = battery.soc b"
  by (simp_all add: count_cycle_def measure_voltage_def measure_current_def store_power_def)

lemma stage_min_soc [simp]:
  "battery.min_soc (clamp_soc b) = battery.min_soc b"
  "battery.min_soc (count_cycle a dt b) = battery.min_soc b"
  "battery.min_soc (measure_voltage v b) = battery.min_soc b"
  "battery.min_soc (measure_current a b) = battery.min_soc b"
  "battery.min_soc (store_power c a b) = battery.min_soc b"
  by (simp_all add: clamp_soc_def count_cycle_def measure_voltage_def measure_current_def
      store_power_def)

lemma stage_max_soc [simp]:
  "battery.max_soc (clamp_soc b) = battery.max_soc b"
  "battery.max_soc (count_cycle a dt b) = battery.max_soc b"
  "battery.max_soc (measure_voltage v b) = battery.max_soc b"
  "battery.max_soc (measure_current a b) = battery.max_soc b"
  "battery.max_soc (store_power c a b) = battery.max_soc b"
  by (simp_all add: clamp_soc_def count_cycle_def measure_voltage_def measure_current_def
      store_power_def)

lemma clamp_soc_soc:
  "battery.soc (clamp_soc b) =
   max (battery.min_soc b) (min (battery.max_soc b) (battery.soc b))"
  by (simp add: clamp_soc_def)

lemma battery_update_fail:
  "integrate_energy b (r < 0) (constrain_power b r) (dt / 3600) (get_efficiency b (r < 0))
     = Inl e \<Longrightarrow>
   battery_update v r dt b = (Inl e, b)"
  by (simp add: battery_update_def Let_def)

lemma battery_update_soc:
  "integrate_energy b (r < 0) (constrain_power b r) (dt / 3600) (get_efficiency b (r < 0))
     = Inr b1 \<Longrightarrow>
   battery.soc (snd (battery_update v r dt b)) =
     max (battery.min_soc b) (min (battery.max_soc b) (battery.soc b1))"
  by (frule integrate_energy_window)
     (simp add: battery_update_def Let_def clamp_soc_soc split: sum.split)

lemma battery_update_window:
  "battery.min_soc (snd (battery_update v r dt b)) = battery.min_soc b \<and>
   battery.max_soc (snd (battery_update v r dt b)) = battery.max_soc b"
proof (cases "integrate_energy b (r < 0) (constrain_power b r) (dt / 3600)
                (get_efficiency b (r < 0))")
  case (Inl e)
  then show ?thesis
    by (simp add: battery_update_fail)
next
  case (Inr b1)
  then show ?thesis
    by (frule_tac integrate_energy_window)
       (simp add: battery_update_def Let_def split: sum.split)
qed

lemma battery_update_in_window:
  assumes "battery.min_soc b \<le> battery.max_soc b" and "soc_in_window b"
  shows "soc_in_window (snd (battery_update v r dt b))"
proof (cases "integrate_energy b (r < 0) (constrain_power b r) (dt / 3600)
                (get_efficiency b (r < 0))")
  case (Inl e)
  with assms show ?thesis
    by (simp add: battery_update_fail)
next
  case (Inr b1)
  from battery_update_soc [OF Inr] battery_update_window [of v r dt b] assms(1)
  show ?thesis
    by (simp add: soc_in_window_def)
qed

lemma set_soc_in_window:
  "battery.min_soc b \<le> battery.max_soc b \<Longrightarrow> soc_in_window (set_soc s v b)"
  by (simp add: set_soc_def soc_in_window_def measure_voltage_def)

lemma set_soc_window:
  "battery.min_soc (set_soc s v b) = battery.min_soc b \<and>
   battery.max_soc (set_soc s v b) = battery.max_soc b"
  by (simp add: set_soc_def measure_voltage_def)

lemma BatterySimulator_in_window:
  "mn \<le> mx \<Longrightarrow> soc_in_window (BatterySimulator c p s mn mx v)"
  by (simp add: BatterySimulator_def soc_in_window_def Let_def)

lemma BatterySimulator_window:
  "battery.min_soc (BatterySimulator c p s mn mx v) = mn \<and>
   battery.max_soc (BatterySimulator c p s mn mx v) = mx"
  by (simp add: BatterySimulator_def Let_def)

lemma battery_call_step_invariant:
  assumes "battery.min_soc b \<le> battery.max_soc b" and "soc_in_window b"
  shows "soc_in_window (battery_call_step b c) \<and>
         battery.min_soc (battery_call_step b c) = battery.min_soc b \<and>
         battery.max_soc (battery_call_step b c) = battery.max_soc b"
proof (cases c)
  case (Update v r dt)
  with assms show ?thesis
    by (simp add: battery_update_in_window battery_update_window)
next
  case (Set_soc s v)
  with assms show ?thesis
    by (simp add: set_soc_in_window set_soc_window)
qed

lemma battery_run_invariant:
  "battery.min_soc b \<le> battery.max_soc b \<Longrightarrow> soc_in_window b \<Longrightarrow>
   soc_in_window (battery_run b calls) \<and>
   battery.min_soc (battery_run b calls) = battery.min_soc b \<and>
   battery.max_soc (battery_run b calls) = battery.max_soc b"
proof (induction calls arbitrary: b)
  case Nil
  then show ?case
    by (simp add: battery_run_def)
next
  case (Cons c calls)
  from Cons.prems have step:
    "soc_in_window (battery_call_step b c) \<and>
     battery.min_soc (battery_call_step b c) = battery.min_soc b \<and>
     battery.max_soc (battery_call_step b c) = battery.max_soc b"
    by (rule battery_call_step_invariant)
  with Cons.prems have
    "soc_in_window (battery_run (battery_call_step b c) calls) \<and>
     battery.min_soc (battery_run (battery_call_step b c) calls)
       = battery.min_soc (battery_call_step b c) \<and>
     battery.max_soc (battery_run (battery_call_step b c) calls)
       = battery.max_soc (battery_call_step b c)"
    by (intro Cons.IH) simp_all
  with step show ?case
    by (simp add: battery_run_def)
qed

lemma battery_update_success:
  assumes "battery_update v r dt b = (Inr st, b')"
  obtains b1 t where
    "integrate_energy b (r < 0) (constrain_power b r) (dt / 3600) (get_efficiency b (r < 0))
       = Inr b1"
    and "b' = store_power (r < 0) (constrain_power b r)
               ((measure_current (constrain_power b r)
                  (measure_voltage v
                    (count_cycle (constrain_power b r) (dt / 3600) (clamp_soc b1))))
                \<lparr>battery.temperature := t\<rparr>)"
    and "st = battery_get_status b'"
  using assms
  by (auto simp: battery_update_def Let_def split: sum.splits)

lemma overcharge_run:
  "battery_update 1 (- 5) 36000 powerwall =
   (Inr \<lparr>battery_status.soc = 100, battery_status.power_kw = - 5, battery_status.voltage = 288 / 5,
         battery_status.current = - (8681 / 100), battery_status.temperature = 45, battery_status.capacity_kwh = 27 / 2,
         battery_status.remaining_kwh = 641 / 50, battery_status.hours_remaining = 0, battery_status.is_charging = True,
         battery_status.is_discharging = False, battery_status.max_charge_power_kw = 0,
         battery_status.max_discharge_power_kw = 5 / 2, battery_status.total_charged_kwh = 95 / 2,
         battery_status.total_discharged_kwh = 0, battery_status.cycle_count = 19 / 10,
         battery_status.health = 13499 / 135, battery_status.state = ''charging''\<rparr>,
    \<lparr>battery.capacity_kwh = 27 / 2, battery.max_power_kw = 5, battery.soc = 100, battery.min_soc = 5,
       battery.max_soc = 100, battery.power_kw = - 5, battery.voltage = 288 / 5,
       battery.current = - (3125 / 36), battery.temperature = 45, battery.total_charged_kwh = 95 / 2,
       battery.total_discharged_kwh = 0, battery.cycle_count = 50 / 27, battery.is_charging = True,
       battery.is_discharging = False\<rparr>)"
  by (simp add: battery_defs Let_def)

lemma overdischarge_run:
  "battery_update 1 2 1 powerwall_low =
   (Inr \<lparr>battery_status.soc = 5, battery_status.power_kw = 1667 / 1000, battery_status.voltage = 2139 / 50,
         battery_status.current = 3897 / 100, battery_status.temperature = 20, battery_status.capacity_kwh = 27 / 2,
         battery_status.remaining_kwh = 0, battery_status.hours_remaining = 0, battery_status.is_charging = False,
         battery_status.is_discharging = True, battery_status.max_charge_power_kw = 5,
         battery_status.max_discharge_power_kw = 5 / 3, battery_status.total_charged_kwh = 0,
         battery_status.total_discharged_kwh = 0, battery_status.cycle_count = 0,
         battery_status.health = 2429999998333 / 24300000000, battery_status.state = ''discharging''\<rparr>,
    \<lparr>battery.capacity_kwh = 27 / 2, battery.max_power_kw = 5, battery.soc = 5, battery.min_soc = 5,
       battery.max_soc = 100, battery.power_kw = 1667 / 1000, battery.voltage = 2139 / 50,
       battery.current = 83350 / 2139, battery.temperature = 12001667 / 600000,
       battery.total_charged_kwh = 0, battery.total_discharged_kwh = 1667 / 3600000,
       battery.cycle_count = 1667 / 97200000, battery.is_charging = False,
       battery.is_discharging = True\<rparr>)"
  by (simp add: battery_defs Let_def)


section \<open>Claims about the battery\<close>

text \<open>
  C2. A battery built with a window \<open>min_soc \<le> max_soc\<close> has its state of charge in
  \<open>[min_soc, max_soc]\<close> after construction and after every call of any sequence of
  \<open>update\<close> calls (any requested power, any time step, any voltage draw, also calls that
  raise) and \<open>set_soc\<close> calls. The sequence is arbitrary, so the bound holds after each
  of its prefixes, that is, at every point where a caller can observe the battery.
\<close>

theorem C2_soc_within_window:
  assumes "mn \<le> mx"
  shows "mn \<le> battery.soc (battery_run (BatterySimulator capacity max_power initial_soc mn mx v0) calls)
       \<and> battery.soc (battery_run (BatterySimulator capacity max_power initial_soc mn mx v0) calls) \<le> mx"
proof -
  let ?b = "BatterySimulator capacity max_power initial_soc mn mx v0"
  from assms have "battery.min_soc ?b \<le> battery.max_soc ?b" and "soc_in_window ?b"
    by (simp_all add: BatterySimulator_window BatterySimulator_in_window)
  then have "soc_in_window (battery_run ?b calls) \<and>
     battery.min_soc (battery_run ?b calls) = battery.min_soc ?b \<and>
     battery.max_soc (battery_run ?b calls) = battery.max_soc ?b"
    by (rule battery_run_invariant)
  then show ?thesis
    by (simp add: soc_in_window_def BatterySimulator_window)
qed

theorem C2_soc_within_window_witness:
  "(5::real) \<le> 100 \<and>
   5 \<le> battery.soc (battery_run (BatterySimulator 13.5 5 50 5 100 1)
                      [Update 1 (- 3) 1, Set_soc 150 1, Update 1 7 36000]) \<and>
   battery.soc (battery_run (BatterySimulator 13.5 5 50 5 100 1)
                  [Update 1 (- 3) 1, Set_soc 150 1, Update 1 7 36000]) \<le> 100"
  using C2_soc_within_window [of 5 100 "13.5" 5 50 1 "[Update 1 (- 3) 1, Set_soc 150 1, Update 1 7 36000]"]
  by simp

text \<open>
  C4 (as claimed: when the clamp of the state of charge changes the energy absorbed or
  released, the reported power is reduced to match). Charging the server's battery from
  50 % with a request of -5 kW over 36000 s ends at 100 %: the cells took
  50 % of 13.5 kWh, 6.75 kWh, but the stored and returned power is the full -5 kW and the
  charge counter grows by 47.5 kWh. Discharging it from 5.001 % with a request of 2 kW
  over one second ends at 5 %: the cells gave 0.001 % of 13.5 kWh, but the returned power
  is 1.667 kW and the discharge counter grows by that power's energy for the whole second.
\<close>

theorem C4_power_not_reduced_counterexample:
  "battery.soc powerwall = 50 \<and>
   battery.soc (snd (battery_update 1 (- 5) 36000 powerwall)) = 100 \<and>
   (100 - 50) / 100 * battery.capacity_kwh powerwall = 6.75 \<and>
   battery.power_kw (snd (battery_update 1 (- 5) 36000 powerwall)) = - 5 \<and>
   battery_status.power_kw (projr (fst (battery_update 1 (- 5) 36000 powerwall))) = - 5 \<and>
   battery.total_charged_kwh (snd (battery_update 1 (- 5) 36000 powerwall))
     - battery.total_charged_kwh powerwall = 47.5 \<and>
   battery.soc powerwall_low = 5.001 \<and>
   battery.soc (snd (battery_update 1 2 1 powerwall_low)) = 5 \<and>
   (5.001 - 5) / 100 * battery.capacity_kwh powerwall_low = 0.000135 \<and>
   battery_status.power_kw (projr (fst (battery_update 1 2 1 powerwall_low))) = 1.667 \<and>
   battery.total_discharged_kwh (snd (battery_update 1 2 1 powerwall_low))
     - battery.total_discharged_kwh powerwall_low = 1.667 / 3600"
  by (simp add: overcharge_run overdischarge_run)
     (simp add: battery_defs Let_def)

text \<open>
  C4 (amended). In every \<open>update\<close> that returns, the power is fixed before the energy is
  integrated: it is zero when the state of charge is already at the bound at the start of
  the step (at or above \<open>max_soc\<close> for a charge request, at or below \<open>min_soc\<close> for a
  discharge request), and otherwise the request limited by the derated power limit. That
  power is what is stored and returned (rounded to three decimals) and what the energy
  counters integrate over the whole step, whatever the time step. The state of charge is
  clamped to the window afterwards; the power and the counters are not adjusted to it.
\<close>

theorem C4_power_fixed_before_clamp:
  assumes "battery_update v r dt b = (Inr st, b')"
  shows "battery.power_kw b' =
           (if r < 0
            then (if battery.soc b \<ge> battery.max_soc b then 0
                  else max (- get_power_limit b True) r)
            else (if battery.soc b \<le> battery.min_soc b then 0
                  else min (get_power_limit b False) r)) \<and>
         battery_status.power_kw st = py_round 3 (battery.power_kw b') \<and>
         (r < 0 \<longrightarrow> battery.total_charged_kwh b' =
            battery.total_charged_kwh b
            + \<bar>battery.power_kw b'\<bar> * (dt / 3600) * get_efficiency b True) \<and>
         (\<not> r < 0 \<longrightarrow> battery.total_discharged_kwh b' =
            battery.total_discharged_kwh b + battery.power_kw b' * (dt / 3600)) \<and>
         battery.soc b' =
           max (battery.min_soc b) (min (battery.max_soc b)
             (if r < 0
              then battery.soc b
                   + \<bar>battery.power_kw b'\<bar> * (dt / 3600) * get_efficiency b True
                       / battery.capacity_kwh b * 100
              else battery.soc b
                   - battery.power_kw b' * (dt / 3600) / get_efficiency b False
                       / battery.capacity_kwh b * 100))"
proof -
  from assms obtain b1 t where
    b1: "integrate_energy b (r < 0) (constrain_power b r) (dt / 3600)
           (get_efficiency b (r < 0)) = Inr b1"
    and b': "b' = store_power (r < 0) (constrain_power b r)
               ((measure_current (constrain_power b r)
                  (measure_voltage v
                    (count_cycle (constrain_power b r) (dt / 3600) (clamp_soc b1))))
                \<lparr>battery.temperature := t\<rparr>)"
    and st: "st = battery_get_status b'"
    by (rule battery_update_success)
  have p: "battery.power_kw b' = constrain_power b r"
    by (simp add: b' store_power_def)
  then have power: "battery.power_kw b' =
           (if r < 0
            then (if battery.soc b \<ge> battery.max_soc b then 0
                  else max (- get_power_limit b True) r)
            else (if battery.soc b \<le> battery.min_soc b then 0
                  else min (get_power_limit b False) r))"
    by (simp add: constrain_power_def Let_def)
  have reported: "battery_status.power_kw st = py_round 3 (battery.power_kw b')"
    by (simp add: st battery_get_status_def Let_def)
  have tc: "battery.total_charged_kwh b' = battery.total_charged_kwh b1"
    and td: "battery.total_discharged_kwh b' = battery.total_discharged_kwh b1"
    by (simp_all add: b' store_power_def measure_current_def measure_voltage_def
        count_cycle_def clamp_soc_def)
  have charged: "battery.total_charged_kwh b' =
           battery.total_charged_kwh b
           + \<bar>battery.power_kw b'\<bar> * (dt / 3600) * get_efficiency b True" if "r < 0"
    using that b1 by (auto simp: tc p integrate_energy_def Let_def py_div_def split: if_splits)
  have discharged: "battery.total_discharged_kwh b' =
           battery.total_discharged_kwh b + battery.power_kw b' * (dt / 3600)" if "\<not> r < 0"
    using that b1 by (auto simp: td p integrate_energy_def Let_def py_div_def split: if_splits)
  have "battery.soc b' = battery.soc (clamp_soc b1)"
    by (simp add: b' store_power_def)
  with integrate_energy_window [OF b1]
  have s: "battery.soc b' =
      max (battery.min_soc b) (min (battery.max_soc b) (battery.soc b1))"
    by (simp add: clamp_soc_soc)
  have "battery.soc b1 =
      (if r < 0
       then battery.soc b
            + \<bar>battery.power_kw b'\<bar> * (dt / 3600) * get_efficiency b True
                / battery.capacity_kwh b * 100
       else battery.soc b
            - battery.power_kw b' * (dt / 3600) / get_efficiency b False
                / battery.capacity_kwh b * 100)"
    using b1 by (auto simp: p integrate_energy_def Let_def py_div_def split: if_splits)
  with s have clamped: "battery.soc b' =
           max (battery.min_soc b) (min (battery.max_soc b)
             (if r < 0
              then battery.soc b
                   + \<bar>battery.power_kw b'\<bar> * (dt / 3600) * get_efficiency b True
                       / battery.capacity_kwh b * 100
              else battery.soc b
                   - battery.power_kw b' * (dt / 3600) / get_efficiency b False
                       / battery.capacity_kwh b * 100))"
    by simp
  from power reported charged discharged clamped show ?thesis
    by blast
qed

theorem C4_power_fixed_before_clamp_witness:
  "battery.power_kw (snd (battery_update 1 (- 5) 36000 powerwall)) = - 5 \<and>
   battery_status.power_kw (projr (fst (battery_update 1 (- 5) 36000 powerwall))) = - 5 \<and>
   battery.total_charged_kwh (snd (battery_update 1 (- 5) 36000 powerwall)) = 47.5"
  using C4_power_fixed_before_clamp [OF overcharge_run]
  by (simp add: overcharge_run)


section \<open>Facts about the EV charger\<close>

lemmas ev_defs =
  ev_update_def power_step_def schedule_step_def charge_step_def calculate_charging_power_def
  ev_get_status_def connect_vehicle_def disconnect_vehicle_def set_current_limit_def
  EVChargerSimulator_def schedule_vehicle_def vehicle_due_def py_div_def
  py_round_def round_half_even_def evening_def hour_later_def charger_11kw_def
  charger_3_7kw_def

lemma py_round_zero [simp]: "py_round n 0 = 0"
  by (simp add: py_round_def round_half_even_def)

lemma charging_power_positive:
  "0 < calculate_charging_power v ev \<Longrightarrow>
   ev_charger.vehicle_connected ev \<and> ev_charger.status ev = CHARGING \<and>
   ev_charger.vehicle_soc ev < ev_charger.vehicle_target_soc ev"
  by (simp add: calculate_charging_power_def split: if_splits)

lemma charging_power_at_target:
  "ev_charger.vehicle_soc ev \<ge> ev_charger.vehicle_target_soc ev \<Longrightarrow>
   calculate_charging_power v ev = 0"
  by (simp add: calculate_charging_power_def)

lemma charging_power_disconnected:
  "\<not> ev_charger.vehicle_connected ev \<Longrightarrow> calculate_charging_power v ev = 0"
  by (simp add: calculate_charging_power_def)

lemma power_step_fields:
  "ev_charger.power_w (power_step env ev) =
     calculate_charging_power (power_draw env) (schedule_step env (ev\<lparr>ev_charger.last_update := ev_env.time_now env\<rparr>))"
  "ev_charger.vehicle_soc (power_step env ev) =
     ev_charger.vehicle_soc (schedule_step env (ev\<lparr>ev_charger.last_update := ev_env.time_now env\<rparr>))"
  "ev_charger.vehicle_target_soc (power_step env ev) =
     ev_charger.vehicle_target_soc (schedule_step env (ev\<lparr>ev_charger.last_update := ev_env.time_now env\<rparr>))"
  by (simp_all add: power_step_def Let_def)

lemma power_step_positive:
  assumes "0 < ev_charger.power_w (power_step env ev)"
  shows "ev_charger.vehicle_soc (power_step env ev)
           < ev_charger.vehicle_target_soc (power_step env ev)"
  using charging_power_positive [of "power_draw env"
          "schedule_step env (ev\<lparr>ev_charger.last_update := ev_env.time_now env\<rparr>)"] assms
  by (simp add: power_step_fields)

lemma charge_step_finishes:
  assumes "charge_step dt ev1 = Inr ev2"
    and "ev_charger.vehicle_soc ev2 \<ge> ev_charger.vehicle_target_soc ev2"
  shows "ev_charger.status ev2 = FINISHING \<and> ev_charger.power_w ev2 = 0"
  using assms
  by (auto simp: charge_step_def Let_def py_div_def split: if_splits)

lemma schedule_step_connected_at_target:
  assumes "ev_charger.vehicle_connected ev"
    and "ev_charger.vehicle_soc ev \<ge> ev_charger.vehicle_target_soc ev"
  shows "\<not> ev_charger.vehicle_connected (schedule_step env ev) \<or>
         ev_charger.vehicle_soc (schedule_step env ev)
           \<ge> ev_charger.vehicle_target_soc (schedule_step env ev)"
  using assms
  by (simp add: schedule_step_def disconnect_vehicle_def Let_def)

lemma ev_update_idle:
  assumes "ev_charger.power_w (power_step env ev) = 0"
  shows "ev_update env ev = (Inr (ev_get_status env (power_step env ev)), power_step env ev)"
  using assms by (simp add: ev_update_def Let_def)

lemma ev_status_power:
  "ev_status.power_w (ev_get_status env ev) = py_round 1 (ev_charger.power_w ev)"
  "ev_status.status_code (ev_get_status env ev) = status_code_of (ev_charger.status ev)"
  by (simp_all add: ev_get_status_def Let_def)

lemma finishing_update:
  assumes charging: "0 < ev_charger.power_w (power_step env ev)"
    and reached: "ev_charger.vehicle_soc (snd (ev_update env ev))
                    \<ge> ev_charger.vehicle_target_soc (snd (ev_update env ev))"
  shows "ev_charger.power_w (snd (ev_update env ev)) = 0 \<and>
         ev_charger.status (snd (ev_update env ev)) = FINISHING \<and>
         fst (ev_update env ev) = Inr (ev_get_status env (snd (ev_update env ev)))"
proof (cases "charge_step ((ev_env.time_now env - ev_charger.last_update ev) / 3600) (power_step env ev)")
  case (Inl e)
  with charging have "snd (ev_update env ev) = power_step env ev"
    by (simp add: ev_update_def Let_def)
  with reached power_step_positive [OF charging] show ?thesis
    by simp
next
  case (Inr ev2)
  with charging have u: "ev_update env ev = (Inr (ev_get_status env ev2), ev2)"
    by (simp add: ev_update_def Let_def)
  with reached have "ev_charger.vehicle_soc ev2 \<ge> ev_charger.vehicle_target_soc ev2"
    by simp
  with Inr have "ev_charger.status ev2 = FINISHING \<and> ev_charger.power_w ev2 = 0"
    by (rule charge_step_finishes)
  with u show ?thesis
    by simp
qed

lemma idle_at_target:
  assumes "ev_charger.vehicle_connected ev"
    and "ev_charger.vehicle_soc ev \<ge> ev_charger.vehicle_target_soc ev"
  shows "ev_charger.power_w (snd (ev_update env ev)) = 0 \<and>
         fst (ev_update env ev) = Inr (ev_get_status env (snd (ev_update env ev)))"
proof -
  let ?ev0 = "ev\<lparr>ev_charger.last_update := ev_env.time_now env\<rparr>"
  from assms have "ev_charger.vehicle_connected ?ev0"
    and "ev_charger.vehicle_soc ?ev0 \<ge> ev_charger.vehicle_target_soc ?ev0"
    by simp_all
  then have "\<not> ev_charger.vehicle_connected (schedule_step env ?ev0) \<or>
         ev_charger.vehicle_soc (schedule_step env ?ev0)
           \<ge> ev_charger.vehicle_target_soc (schedule_step env ?ev0)"
    by (rule schedule_step_connected_at_target)
  then have "calculate_charging_power (power_draw env) (schedule_step env ?ev0) = 0"
    by (auto simp: charging_power_at_target charging_power_disconnected)
  then have "ev_charger.power_w (power_step env ev) = 0"
    by (simp add: power_step_fields)
  then show ?thesis
    by (simp add: ev_update_idle)
qed

lemma finishing_run:
  "ev_update hour_later charger_11kw =
   (Inr \<lparr>ev_status.status = ''finished'', ev_status.status_code = 5,
         ev_status.power_w = 0, ev_status.power_kw = 0, ev_status.max_power_w = 11000,
         ev_status.current_limit_a = 159 / 10, ev_status.vehicle_connected = True,
         ev_status.vehicle_soc = 969 / 10, ev_status.vehicle_target_soc = 80,
         ev_status.session_energy_wh = 11000, ev_status.session_energy_kwh = 11,
         ev_status.session_duration_min = 60, ev_status.hours_to_target = 0,
         ev_status.total_energy_kwh = 11, ev_status.arrival_hour = 18,
         ev_status.departure_hour = 7\<rparr>,
    \<lparr>ev_charger.max_power_kw = 11, ev_charger.vehicle_capacity_kwh = 60,
       ev_charger.arrival_hour = 18, ev_charger.departure_hour = 7,
       ev_charger.max_current = 6875 / 433, ev_charger.current_limit = 6875 / 433,
       ev_charger.status = FINISHING, ev_charger.power_w = 0,
       ev_charger.session_energy_wh = 11000, ev_charger.total_energy_wh = 11000,
       ev_charger.vehicle_connected = True, ev_charger.vehicle_soc = 29057 / 300,
       ev_charger.vehicle_target_soc = 80, ev_charger.session_start = Some 0,
       ev_charger.last_update = 3600\<rparr>)"
  by (simp add: ev_defs Let_def)

lemma finishing_run_power:
  "ev_charger.power_w (power_step hour_later charger_11kw) = 11000"
  by (simp add: ev_defs Let_def)


section \<open>Claims about the EV charger\<close>

text \<open>
  C6. In every call of \<open>update\<close> that charges (the charging power computed in the call is
  positive) and ends with the vehicle's state of charge at or above the target, the power
  left in the object and the power returned are 0 and the status is \<open>FINISHING\<close>, with
  status code 5; such a call does not raise. In every call of \<open>update\<close> on a charger whose
  connected vehicle is already at or above the target, the power left and returned is 0.
\<close>

theorem C6_finishing_at_target:
  "(0 < ev_charger.power_w (power_step env ev) \<and>
    ev_charger.vehicle_soc (snd (ev_update env ev))
      \<ge> ev_charger.vehicle_target_soc (snd (ev_update env ev)) \<longrightarrow>
      ev_charger.power_w (snd (ev_update env ev)) = 0 \<and>
      ev_charger.status (snd (ev_update env ev)) = FINISHING \<and>
      fst (ev_update env ev) = Inr (ev_get_status env (snd (ev_update env ev))) \<and>
      ev_status.power_w (ev_get_status env (snd (ev_update env ev))) = 0 \<and>
      ev_status.status_code (ev_get_status env (snd (ev_update env ev))) = 5) \<and>
   (ev_charger.vehicle_connected ev \<and>
    ev_charger.vehicle_soc ev \<ge> ev_charger.vehicle_target_soc ev \<longrightarrow>
      ev_charger.power_w (snd (ev_update env ev)) = 0 \<and>
      fst (ev_update env ev) = Inr (ev_get_status env (snd (ev_update env ev))) \<and>
      ev_status.power_w (ev_get_status env (snd (ev_update env ev))) = 0)"
proof (intro conjI impI)
  assume a: "0 < ev_charger.power_w (power_step env ev) \<and>
    ev_charger.vehicle_soc (snd (ev_update env ev))
      \<ge> ev_charger.vehicle_target_soc (snd (ev_update env ev))"
  then have f: "ev_charger.power_w (snd (ev_update env ev)) = 0 \<and>
         ev_charger.status (snd (ev_update env ev)) = FINISHING \<and>
         fst (ev_update env ev) = Inr (ev_get_status env (snd (ev_update env ev)))"
    by (intro finishing_update) simp_all
  then show "ev_charger.power_w (snd (ev_update env ev)) = 0"
    and "ev_charger.status (snd (ev_update env ev)) = FINISHING"
    and "fst (ev_update env ev) = Inr (ev_get_status env (snd (ev_update env ev)))"
    by simp_all
  from f show "ev_status.power_w (ev_get_status env (snd (ev_update env ev))) = 0"
    and "ev_status.status_code (ev_get_status env (snd (ev_update env ev))) = 5"
    by (simp_all add: ev_status_power)
next
  assume b: "ev_charger.vehicle_connected ev \<and>
    ev_charger.vehicle_soc ev \<ge> ev_charger.vehicle_target_soc ev"
  then have i: "ev_charger.power_w (snd (ev_update env ev)) = 0 \<and>
         fst (ev_update env ev) = Inr (ev_get_status env (snd (ev_update env ev)))"
    by (intro idle_at_target) simp_all
  then show "ev_charger.power_w (snd (ev_update env ev)) = 0"
    and "fst (ev_update env ev) = Inr (ev_get_status env (snd (ev_update env ev)))"
    by simp_all
  from i show "ev_status.power_w (ev_get_status env (snd (ev_update env ev))) = 0"
    by (simp add: ev_status_power)
qed

theorem C6_finishing_at_target_witness:
  "0 < ev_charger.power_w (power_step hour_later charger_11kw) \<and>
   ev_charger.vehicle_soc (snd (ev_update hour_later charger_11kw))
     \<ge> ev_charger.vehicle_target_soc (snd (ev_update hour_later charger_11kw)) \<and>
   ev_charger.power_w (snd (ev_update hour_later charger_11kw)) = 0 \<and>
   ev_charger.status (snd (ev_update hour_later charger_11kw)) = FINISHING \<and>
   ev_status.status_code (ev_get_status hour_later (snd (ev_update hour_later charger_11kw))) = 5 \<and>
   ev_charger.vehicle_connected (snd (ev_update hour_later charger_11kw)) \<and>
   ev_charger.power_w
     (snd (ev_update hour_later (snd (ev_update hour_later charger_11kw)))) = 0"
  using C6_finishing_at_target [of hour_later charger_11kw]
    C6_finishing_at_target [of hour_later "snd (ev_update hour_later charger_11kw)"]
  by (simp add: finishing_run finishing_run_power)

text \<open>
  C10 (as claimed: after \<open>set_current_limit\<close> the limit lies between 6 A and
  \<open>max_current\<close>). A 3.7 kW charger has \<open>max_current\<close> = 3700 / (400 * 1.732), about
  5.34 A; \<open>set_current_limit(10)\<close> leaves the limit at 6 A, above \<open>max_current\<close>.
\<close>

theorem C10_limit_above_max_counterexample:
  "max_current charger_3_7kw = 3.7 * 1000 / (400 * 1.732) \<and>
   max_current charger_3_7kw < 6 \<and>
   current_limit (set_current_limit 10 charger_3_7kw) = 6 \<and>
   \<not> current_limit (set_current_limit 10 charger_3_7kw) \<le> max_current charger_3_7kw"
  by (simp add: ev_defs Let_def)

text \<open>
  C10 (amended). For every argument, \<open>set_current_limit\<close> leaves a limit of at least 6 A
  and of at most the larger of 6 A and \<open>max_current\<close>, where a charger built by the
  constructor has \<open>max_current\<close> = \<open>max_power_kw\<close> * 1000 / (400 * 1.732). So the limit is
  never below 6 A, and it is within \<open>max_current\<close> exactly for chargers whose
  \<open>max_current\<close> is at least 6 A; for a smaller charger it is 6 A.
\<close>

theorem C10_current_limit_bounds:
  "6 \<le> current_limit (set_current_limit amps ev) \<and>
   current_limit (set_current_limit amps ev) \<le> max 6 (max_current ev) \<and>
   max_current (set_current_limit amps ev) = max_current ev \<and>
   max_current (EVChargerSimulator max_power capacity arrival departure env)
     = max_power * 1000 / (400 * 1.732)"
  by (simp add: set_current_limit_def EVChargerSimulator_def schedule_vehicle_def Let_def)


section \<open>Facts about the grid meter\<close>

lemmas grid_defs =
  grid_update_def limit_power_def count_energy_def measure_line_def simulate_voltage_def
  simulate_frequency_def calculate_currents_def calculate_reactive_power_def
  grid_get_status_def py_div_def py_round_def round_half_even_def calm_second_def
  meter_25kw_def GridSimulator_def

lemma limit_power_power:
  "grid_meter.power_w (limit_power net g) =
     max (- (grid_meter.max_power_kw g * 1000)) (min (grid_meter.max_power_kw g * 1000) net)"
  by (simp add: limit_power_def Let_def)

lemma count_energy_power [simp]:
  "grid_meter.power_w (count_energy env g) = grid_meter.power_w g"
  by (simp add: count_energy_def Let_def)

lemma measure_line_power [simp]:
  "grid_meter.power_w (measure_line env g) = grid_meter.power_w g"
  by (simp add: measure_line_def split: prod.split)

lemma grid_update_power:
  "grid_meter.power_w (snd (grid_update env net g)) =
     max (- (grid_meter.max_power_kw g * 1000)) (min (grid_meter.max_power_kw g * 1000) net)"
  by (simp add: grid_update_def Let_def limit_power_power split: sum.split prod.split)

lemma grid_update_reported:
  "\<not> isl (fst (grid_update env net g)) \<Longrightarrow>
   grid_status.power_w (projr (fst (grid_update env net g))) =
     py_round 1 (max (- (grid_meter.max_power_kw g * 1000))
                     (min (grid_meter.max_power_kw g * 1000) net))"
  by (simp add: grid_update_def Let_def limit_power_power grid_get_status_def
      split: sum.splits prod.splits)

lemma scenario_c_returns:
  "\<not> isl (fst (grid_update calm_second 30000 meter_25kw))"
  by (simp add: grid_defs Let_def power2_eq_square)


section \<open>Claims about the grid meter\<close>

text \<open>
  C9. In every call of \<open>update\<close> with a net power whose magnitude exceeds the connection
  capacity \<open>max_power_kw\<close> * 1000, the stored power is that capacity with a sign: the
  capacity itself for an import above it and its negative for an export below it, when
  the capacity is not negative. The power returned by a call that returns is the stored
  power at the dictionary's resolution of one decimal. The meter of scenario C is the
  witness: 30000 W on a 25 kW connection is stored and returned as 25000 W.
\<close>

theorem C9_grid_power_clamped:
  assumes "\<bar>net_power_w\<bar> > grid_meter.max_power_kw g * 1000"
  shows "(grid_meter.power_w (snd (grid_update env net_power_w g))
            = grid_meter.max_power_kw g * 1000 \<or>
          grid_meter.power_w (snd (grid_update env net_power_w g))
            = - (grid_meter.max_power_kw g * 1000)) \<and>
         (0 \<le> grid_meter.max_power_kw g \<longrightarrow>
            grid_meter.power_w (snd (grid_update env net_power_w g)) =
              (if net_power_w > 0 then grid_meter.max_power_kw g * 1000
               else - (grid_meter.max_power_kw g * 1000))) \<and>
         (\<not> isl (fst (grid_update env net_power_w g)) \<longrightarrow>
            grid_status.power_w (projr (fst (grid_update env net_power_w g))) =
              py_round 1 (grid_meter.power_w (snd (grid_update env net_power_w g))))"
proof (intro conjI impI)
  from assms show "grid_meter.power_w (snd (grid_update env net_power_w g))
            = grid_meter.max_power_kw g * 1000 \<or>
          grid_meter.power_w (snd (grid_update env net_power_w g))
            = - (grid_meter.max_power_kw g * 1000)"
    by (auto simp: grid_update_power max_def min_def)
next
  assume "0 \<le> grid_meter.max_power_kw g"
  with assms show "grid_meter.power_w (snd (grid_update env net_power_w g)) =
              (if net_power_w > 0 then grid_meter.max_power_kw g * 1000
               else - (grid_meter.max_power_kw g * 1000))"
    by (auto simp: grid_update_power max_def min_def)
next
  assume "\<not> isl (fst (grid_update env net_power_w g))"
  then show "grid_status.power_w (projr (fst (grid_update env net_power_w g))) =
              py_round 1 (grid_meter.power_w (snd (grid_update env net_power_w g)))"
    by (simp add: grid_update_reported grid_update_power)
qed

theorem C9_grid_power_clamped_witness:
  "\<bar>30000\<bar> > grid_meter.max_power_kw meter_25kw * 1000 \<and>
   grid_meter.max_power_kw meter_25kw = 25 \<and>
   grid_meter.power_w (snd (grid_update calm_second 30000 meter_25kw)) = 25000 \<and>
   \<not> isl (fst (grid_update calm_second 30000 meter_25kw)) \<and>
   grid_status.power_w (projr (fst (grid_update calm_second 30000 meter_25kw))) = 25000"
proof -
  have m: "grid_meter.max_power_kw meter_25kw = 25"
    by (simp add: meter_25kw_def GridSimulator_def)
  then have h: "\<bar>30000\<bar> > grid_meter.max_power_kw meter_25kw * 1000"
    by simp
  have r: "py_round 1 25000 = 25000"
    by (simp add: py_round_def round_half_even_def)
  from C9_grid_power_clamped [OF h, of calm_second] m scenario_c_returns r h
  show ?thesis
    by simp
qed


section \<open>Facts about the solar simulator\<close>

text \<open>The argument of \<open>math.asin\<close> in \<open>calculate_solar_elevation\<close> is in its domain.\<close>

lemma asin_argument_in_domain:
  fixes a b c :: real
  shows "\<bar>sin a * sin b + cos a * cos b * cos c\<bar> \<le> 1"
proof -
  define k where "k = cos c"
  define p where "p = cos (a - b)"
  define q where "q = cos (a + b)"
  have k: "- 1 \<le> k" "k \<le> 1"
    by (simp_all add: k_def)
  have p: "- 1 \<le> p" "p \<le> 1"
    by (simp_all add: p_def)
  have q: "- 1 \<le> q" "q \<le> 1"
    by (simp_all add: q_def)
  have e: "sin a * sin b + cos a * cos b * cos c = ((1 + k) * p - (1 - k) * q) / 2"
    by (simp add: k_def p_def q_def cos_diff cos_add algebra_simps)
  have u1: "(1 + k) * p \<le> (1 + k) * 1"
    using k p by (intro mult_left_mono) simp_all
  have u2: "(1 - k) * (- 1) \<le> (1 - k) * q"
    using k q by (intro mult_left_mono) simp_all
  have l1: "(1 + k) * (- 1) \<le> (1 + k) * p"
    using k p by (intro mult_left_mono) simp_all
  have l2: "(1 - k) * q \<le> (1 - k) * 1"
    using k q by (intro mult_left_mono) simp_all
  from u1 u2 l1 l2 have "\<bar>((1 + k) * p - (1 - k) * q) / 2\<bar> \<le> 1"
    by (simp add: abs_le_iff algebra_simps)
  with e show ?thesis
    by simp
qed

lemma elevation_equinox_noon:
  "calculate_solar_elevation equator_array equinox_noon = Inr 90"
  by (simp add: calculate_solar_elevation_def equator_array_def equinox_noon_def
      SolarSimulator_def radians_def degrees_def Let_def)

lemma elevation_equinox_midnight:
  "calculate_solar_elevation equator_array equinox_midnight = Inr 0"
  by (simp add: calculate_solar_elevation_def equator_array_def equinox_midnight_def
      SolarSimulator_def radians_def degrees_def Let_def)

lemma scenario_fields [simp]:
  "peak_power equator_array = 6"
  "efficiency equator_array = 0.85"
  "hour equinox_noon = 12"
  "variation_draw low_draw = 0.97"
  "variation_draw high_draw = 1.03"
  by (simp_all add: equator_array_def SolarSimulator_def equinox_noon_def low_draw_def
      high_draw_def)

lemma noon_output:
  "calculate_power_output equator_array equinox_noon (Some 0) d =
     Inr (py_round 3 (max 0 (5.1 * variation_draw d)))"
  by (simp add: calculate_power_output_def elevation_equinox_noon Let_def radians_def
      get_ambient_temperature_def)

lemma night_output:
  "calculate_solar_elevation s ts = Inr 0 \<Longrightarrow>
   calculate_power_output s ts cloud_cover d = Inr 0"
  by (simp add: calculate_power_output_def)


text \<open>
  In daylight every call draws the output variation: on the equator at noon of day 81
  with cloud cover 0, the draw 0.97 gives 4.947 kW and the draw 1.03 gives 5.253 kW.
\<close>

lemma noon_variation:
  "calculate_power_output equator_array equinox_noon (Some 0) low_draw = Inr 4.947"
  "calculate_power_output equator_array equinox_noon (Some 0) high_draw = Inr 5.253"
  by (simp_all add: noon_output py_round_def round_half_even_def)





section \<open>Claims about the solar simulator\<close>




section \<open>The update loop of the server\<close>

text \<open>Truncation and rounding of the reported numbers.\<close>

lemma py_int_trunc: "\<bar>real_of_int (py_int x) - x\<bar> < 1"
  by (simp add: py_int_def) linarith

lemma py_int_of_int [simp]: "py_int (real_of_int k) = k"
  by (simp add: py_int_def)

lemma py_int_numeral [simp]: "py_int 0 = 0" "py_int (numeral n) = numeral n"
  by (simp_all add: py_int_def)

lemma float_result_exact [simp]: "float_result 0 x = x"
  by (simp add: float_result_def)

text \<open>
  Truncating a float result whose exact value is an integer \<open>k\<close>: a rounding error below 1
  in magnitude gives \<open>k\<close> or its neighbour towards zero or away from it.
\<close>

lemma py_int_near_integer:
  assumes "\<bar>err\<bar> < 1"
  shows "\<bar>py_int (float_result err (real_of_int k)) - k\<bar> \<le> 1"
proof -
  have f: "\<lfloor>real_of_int k + err\<rfloor> = k + \<lfloor>err\<rfloor>"
    by linarith
  have c: "\<lceil>real_of_int k + err\<rceil> = k + \<lceil>err\<rceil>"
    by linarith
  from assms have "- 1 \<le> \<lfloor>err\<rfloor>" "\<lfloor>err\<rfloor> \<le> 0" "0 \<le> \<lceil>err\<rceil>" "\<lceil>err\<rceil> \<le> 1"
    by linarith+
  with f c show ?thesis
    by (simp add: py_int_def float_result_def)
qed

lemma round_half_even_error: "\<bar>real_of_int (round_half_even y) - y\<bar> \<le> 1 / 2"
  by (simp add: round_half_even_def Let_def)

lemma py_round_error: "\<bar>py_round n x - x\<bar> \<le> 1 / (2 * 10 ^ n)"
proof -
  let ?k = "real_of_int (round_half_even (x * 10 ^ n))"
  have e: "\<bar>?k - x * 10 ^ n\<bar> \<le> 1 / 2"
    by (rule round_half_even_error)
  have "py_round n x - x = (?k - x * 10 ^ n) / 10 ^ n"
    by (simp add: py_round_def diff_divide_distrib)
  then have "\<bar>py_round n x - x\<bar> = \<bar>?k - x * 10 ^ n\<bar> / 10 ^ n"
    by (simp add: abs_divide del: times_divide_eq_left)
  also from e have "\<dots> \<le> (1 / 2) / 10 ^ n"
    by (rule divide_right_mono) simp
  finally show ?thesis by simp
qed

lemma py_round_scaled: "py_round 3 p * 1000 = real_of_int (round_half_even (p * 1000))"
  by (simp add: py_round_def)

lemma battery_reported_watts:
  assumes "\<bar>err 1\<bar> < 1"
  shows "\<bar>real_of_int (battery_data.power_w (battery_report err (battery_get_status b) hr))
           - 1000 * battery.power_kw b\<bar> \<le> 3 / 2"
proof -
  let ?k = "round_half_even (battery.power_kw b * 1000)"
  have r: "battery_data.power_w (battery_report err (battery_get_status b) hr)
             = py_int (float_result (err 1) (real_of_int ?k))"
    by (simp add: battery_report_def battery_get_status_def Let_def py_round_scaled)
  from assms have "\<bar>py_int (float_result (err 1) (real_of_int ?k)) - ?k\<bar> \<le> 1"
    by (rule py_int_near_integer)
  then have "\<bar>real_of_int (py_int (float_result (err 1) (real_of_int ?k))) - real_of_int ?k\<bar>
               \<le> 1"
    by linarith
  with round_half_even_error [of "battery.power_kw b * 1000"]
  have "\<bar>real_of_int (py_int (float_result (err 1) (real_of_int ?k)))
          - battery.power_kw b * 1000\<bar> \<le> 3 / 2"
    by linarith
  with r show ?thesis
    by (simp add: mult.commute)
qed

lemma ev_reported_watts:
  "\<bar>ev_data.power_w (ev_report (ev_get_status e c)) - ev_charger.power_w c\<bar> \<le> 1 / 20"
  using py_round_error [of 1 "ev_charger.power_w c"]
  by (simp add: ev_report_def ev_get_status_def Let_def)

text \<open>What each method of a pass changes in the server.\<close>

lemma solar_stage:
  "solar_sim (snd (update_solar_registers env S)) = solar_sim S"
  "battery_sim (snd (update_solar_registers env S)) = battery_sim S"
  "grid_sim (snd (update_solar_registers env S)) = grid_sim S"
  "ev_sim (snd (update_solar_registers env S)) = ev_sim S"
  "hr_battery (snd (update_solar_registers env S)) = hr_battery S"
  "hr_grid (snd (update_solar_registers env S)) = hr_grid S"
  "hr_ev (snd (update_solar_registers env S)) = hr_ev S"
  "published (snd (update_solar_registers env S)) = published S"
  "error_log (snd (update_solar_registers env S)) = error_log S"
  "server.last_update (snd (update_solar_registers env S)) = server.last_update S"
  "mqtt_connected (snd (update_solar_registers env S)) = mqtt_connected S"
  by (simp_all add: update_solar_registers_def Let_def split: sum.split)


lemma ev_stage:
  "fst (update_ev_registers env S) =
     (case fst (ev_update (ev_reads env) (ev_sim S)) of
        Inl e \<Rightarrow> Inl e | Inr st \<Rightarrow> Inr (ev_report st))"
  "ev_sim (snd (update_ev_registers env S)) = snd (ev_update (ev_reads env) (ev_sim S))"
  "solar_sim (snd (update_ev_registers env S)) = solar_sim S"
  "battery_sim (snd (update_ev_registers env S)) = battery_sim S"
  "grid_sim (snd (update_ev_registers env S)) = grid_sim S"
  "hr_solar (snd (update_ev_registers env S)) = hr_solar S"
  "hr_battery (snd (update_ev_registers env S)) = hr_battery S"
  "hr_grid (snd (update_ev_registers env S)) = hr_grid S"
  "published (snd (update_ev_registers env S)) = published S"
  "error_log (snd (update_ev_registers env S)) = error_log S"
  "server.last_update (snd (update_ev_registers env S)) = server.last_update S"
  "server.solar_energy_wh (snd (update_ev_registers env S)) = server.solar_energy_wh S"
  "mqtt_connected (snd (update_ev_registers env S)) = mqtt_connected S"
  by (simp_all add: update_ev_registers_def split: prod.split sum.split)

lemma battery_stage:
  "fst (update_battery_registers env solar_w load_w S) =
     (case fst (battery_update (battery_draw env) ((load_w - real_of_int solar_w) / 1000) 1
                  (battery_sim S)) of
        Inl e \<Rightarrow> Inl e
      | Inr st \<Rightarrow>
          Inr (battery_report (float_error env 2) st
                 (battery_registers (float_error env 2) st (hr_battery S))))"
  "battery_sim (snd (update_battery_registers env solar_w load_w S)) =
     snd (battery_update (battery_draw env) ((load_w - real_of_int solar_w) / 1000) 1
            (battery_sim S))"
  "solar_sim (snd (update_battery_registers env solar_w load_w S)) = solar_sim S"
  "grid_sim (snd (update_battery_registers env solar_w load_w S)) = grid_sim S"
  "ev_sim (snd (update_battery_registers env solar_w load_w S)) = ev_sim S"
  "hr_solar (snd (update_battery_registers env solar_w load_w S)) = hr_solar S"
  "hr_grid (snd (update_battery_registers env solar_w load_w S)) = hr_grid S"
  "hr_ev (snd (update_battery_registers env solar_w load_w S)) = hr_ev S"
  "published (snd (update_battery_registers env solar_w load_w S)) = published S"
  "error_log (snd (update_battery_registers env solar_w load_w S)) = error_log S"
  "server.last_update (snd (update_battery_registers env solar_w load_w S))
     = server.last_update S"
  "server.solar_energy_wh (snd (update_battery_registers env solar_w load_w S))
     = server.solar_energy_wh S"
  "mqtt_connected (snd (update_battery_registers env solar_w load_w S)) = mqtt_connected S"
  by (simp_all add: update_battery_registers_def Let_def split: prod.split sum.split)

lemma grid_stage:
  "fst (update_grid_registers env net S) =
     (case fst (grid_update (grid_reads env) (real_of_int net) (grid_sim S)) of
        Inl e \<Rightarrow> Inl e | Inr st \<Rightarrow> Inr (grid_report st))"
  "grid_sim (snd (update_grid_registers env net S)) =
     snd (grid_update (grid_reads env) (real_of_int net) (grid_sim S))"
  "solar_sim (snd (update_grid_registers env net S)) = solar_sim S"
  "battery_sim (snd (update_grid_registers env net S)) = battery_sim S"
  "ev_sim (snd (update_grid_registers env net S)) = ev_sim S"
  "published (snd (update_grid_registers env net S)) = published S"
  "error_log (snd (update_grid_registers env net S)) = error_log S"
  "server.last_update (snd (update_grid_registers env net S)) = server.last_update S"
  "mqtt_connected (snd (update_grid_registers env net S)) = mqtt_connected S"
  by (simp_all add: update_grid_registers_def split: prod.split sum.split)

lemma publish_frame [simp]:
  "battery_sim (publish_telemetry t S) = battery_sim S"
  "grid_sim (publish_telemetry t S) = grid_sim S"
  "ev_sim (publish_telemetry t S) = ev_sim S"
  by (simp_all add: publish_telemetry_def)

text \<open>The results of the methods, case by case.\<close>

lemma update_ev_registers_cases:
  "update_ev_registers env S = (Inl e, S2) \<Longrightarrow>
     fst (ev_update (ev_reads env) (ev_sim S)) = Inl e \<and>
     S2 = S\<lparr>ev_sim := snd (ev_update (ev_reads env) (ev_sim S))\<rparr>"
  "update_ev_registers env S = (Inr ev_d, S2) \<Longrightarrow>
     \<exists>st. fst (ev_update (ev_reads env) (ev_sim S)) = Inr st \<and> ev_d = ev_report st \<and>
          S2 = S\<lparr>ev_sim := snd (ev_update (ev_reads env) (ev_sim S)),
                 hr_ev := ev_registers (float_error env 4) st (hr_ev S)\<rparr>"
  by (auto simp: update_ev_registers_def split: prod.splits sum.splits)

lemma update_battery_registers_cases:
  "update_battery_registers env solar_w load_w S = (Inl e, S3) \<Longrightarrow>
     fst (battery_update (battery_draw env) ((load_w - real_of_int solar_w) / 1000) 1
            (battery_sim S)) = Inl e \<and>
     S3 = S\<lparr>battery_sim :=
              snd (battery_update (battery_draw env) ((load_w - real_of_int solar_w) / 1000) 1
                     (battery_sim S))\<rparr>"
  "update_battery_registers env solar_w load_w S = (Inr battery_d, S3) \<Longrightarrow>
     \<exists>st. fst (battery_update (battery_draw env) ((load_w - real_of_int solar_w) / 1000) 1
                 (battery_sim S)) = Inr st \<and>
          battery_d = battery_report (float_error env 2) st
                        (battery_registers (float_error env 2) st (hr_battery S)) \<and>
          S3 = S\<lparr>battery_sim :=
                   snd (battery_update (battery_draw env)
                          ((load_w - real_of_int solar_w) / 1000) 1 (battery_sim S)),
                 hr_battery := battery_registers (float_error env 2) st (hr_battery S)\<rparr>"
  by (auto simp: update_battery_registers_def Let_def split: prod.splits sum.splits)

lemma update_grid_registers_cases:
  "update_grid_registers env net S = (Inl e, S4) \<Longrightarrow>
     fst (grid_update (grid_reads env) (real_of_int net) (grid_sim S)) = Inl e \<and>
     S4 = S\<lparr>grid_sim := snd (grid_update (grid_reads env) (real_of_int net) (grid_sim S))\<rparr>"
  "update_grid_registers env net S = (Inr grid_d, S4) \<Longrightarrow>
     grid_sim S4 = snd (grid_update (grid_reads env) (real_of_int net) (grid_sim S)) \<and>
     battery_sim S4 = battery_sim S \<and> ev_sim S4 = ev_sim S"
  by (auto simp: update_grid_registers_def split: prod.splits sum.splits)

lemma try_body_success:
  assumes "try_body env S = (Inr (t, net), S')"
  obtains solar_d S1 ev_d S2 battery_d S3 grid_d S4 where
    "update_solar_registers env S = (Inr solar_d, S1)"
    and "update_ev_registers env S1 = (Inr ev_d, S2)"
    and "update_battery_registers env (solar_data.power_w solar_d)
           (800 + ev_data.power_w ev_d) S2 = (Inr battery_d, S3)"
    and "net = py_int (800 + ev_data.power_w ev_d
                 - real_of_int (solar_data.power_w solar_d)
                 - real_of_int (battery_data.power_w battery_d))"
    and "update_grid_registers env net S3 = (Inr grid_d, S4)"
    and "t = \<lparr> solar_part = solar_d, battery_part = battery_d,
               grid_part = grid_d, ev_part = ev_d \<rparr>"
    and "S' = (publish_telemetry t S4)\<lparr>server.last_update := end_time env\<rparr>"
  using assms
  by (auto simp: try_body_def Let_def split: prod.splits sum.splits)


lemma tick_returns:
  assumes "fst (tick env S) = Inr r"
  shows "try_body env S = (Inr r, snd (tick env S))"
  using assms
  by (auto simp: tick_def split: prod.splits sum.splits)


lemma battery_power_stored:
  assumes "fst (battery_update v r dt b) = Inr st"
  shows "battery.power_kw (snd (battery_update v r dt b)) = constrain_power b r"
    and "st = battery_get_status (snd (battery_update v r dt b))"
proof -
  from assms have u: "battery_update v r dt b = (Inr st, snd (battery_update v r dt b))"
    by (simp add: prod_eq_iff)
  then obtain b1 t where
    "snd (battery_update v r dt b) = store_power (r < 0) (constrain_power b r)
            ((measure_current (constrain_power b r)
               (measure_voltage v
                 (count_cycle (constrain_power b r) (dt / 3600) (clamp_soc b1))))
             \<lparr>battery.temperature := t\<rparr>)"
    by (rule battery_update_success)
  then show "battery.power_kw (snd (battery_update v r dt b)) = constrain_power b r"
    by (simp add: store_power_def)
  from u show "st = battery_get_status (snd (battery_update v r dt b))"
    by (rule battery_update_success)
qed

lemma ev_update_status:
  assumes "fst (ev_update e c) = Inr st"
  shows "st = ev_get_status e (snd (ev_update e c))"
  using assms
  by (auto simp: ev_update_def Let_def split: prod.splits sum.splits if_splits)



text \<open>The midnight pass on the default server, stage by stage.\<close>

lemma midnight_pass_fields [simp]:
  "solar_clock midnight_pass = equinox_midnight"
  "solar_rand midnight_pass = low_draw"
  "report_cloud_draw midnight_pass = 0"
  "report_temp_draw midnight_pass = 0"
  "solar_time midnight_pass = 1"
  "ev_reads midnight_pass = midnight_reads"
  "battery_draw midnight_pass = 1"
  "grid_reads midnight_pass = calm_second\<lparr>grid_env.current_hour := 0\<rparr>"
  "end_time midnight_pass = 1"
  "float_error midnight_pass u r = 0"
  by (simp_all add: midnight_pass_def)

lemma default_server_fields [simp]:
  "solar_sim default_server = equator_array"
  "battery_sim default_server = powerwall"
  "grid_sim default_server = meter_25kw"
  "server.solar_energy_wh default_server = 0"
  "server.last_update default_server = 0"
  "hr_solar default_server = replicate 100 0"
  "hr_battery default_server = replicate 100 0"
  "mqtt_connected default_server = False"
  "published default_server = []"
  "error_log default_server = []"
  by (simp_all add: default_server_def ModbusSimulatorServer_def equator_array_def
      powerwall_def meter_25kw_def)

lemma no_capacity_server_fields [simp]:
  "solar_sim no_capacity_server = equator_array"
  "battery_sim no_capacity_server = BatterySimulator 0 5 50 5 100 1"
  "grid_sim no_capacity_server = meter_25kw"
  "ev_sim no_capacity_server = ev_sim default_server"
  "server.solar_energy_wh no_capacity_server = 0"
  "server.last_update no_capacity_server = 0"
  "hr_solar no_capacity_server = replicate 100 0"
  "hr_battery no_capacity_server = replicate 100 0"
  "hr_grid no_capacity_server = replicate 100 0"
  "mqtt_connected no_capacity_server = False"
  "published no_capacity_server = []"
  "error_log no_capacity_server = []"
  by (simp_all add: no_capacity_server_def default_server_def ModbusSimulatorServer_def
      equator_array_def meter_25kw_def)

lemma infinite_latitude_server_fields [simp]:
  "latitude (solar_sim infinite_latitude_server) = Infinity"
  "server.last_update infinite_latitude_server = 0"
  "published infinite_latitude_server = []"
  "error_log infinite_latitude_server = []"
  by (simp_all add: infinite_latitude_server_def ModbusSimulatorServer_def SolarSimulator_def)

lemma midnight_power [simp]:
  "calculate_power_output equator_array equinox_midnight cc d = Inr 0"
  by (simp add: night_output elevation_equinox_midnight)

lemma midnight_solar:
  "solar_sim S = equator_array \<Longrightarrow> length (hr_solar S) = 100 \<Longrightarrow>
   fst (update_solar_registers midnight_pass S) =
     Inr \<lparr> solar_data.power_w = 0,
           solar_data.energy_wh = py_int (server.solar_energy_wh S),
           solar_data.voltage_v = 380,
           solar_data.current_a = 0, solar_data.status = 0 \<rparr>"
  by (simp add: update_solar_registers_def get_current_status_def Let_def
      elevation_equinox_midnight)

lemma midnight_ev:
  "fst (ev_update midnight_reads (ev_sim default_server)) =
     Inr (ev_get_status midnight_reads (snd (ev_update midnight_reads (ev_sim default_server))))"
  by (simp add: ev_defs default_server_def ModbusSimulatorServer_def midnight_reads_def Let_def)

lemma midnight_ev_report:
  "ev_report (ev_get_status midnight_reads (snd (ev_update midnight_reads (ev_sim default_server))))
   = \<lparr> ev_data.power_w = 11000, ev_data.session_energy_wh = 3.1, ev_data.vehicle_soc = 30,
       ev_data.status = ''charging'', ev_data.status_code = 2 \<rparr>"
  by (simp add: ev_report_def ev_defs default_server_def ModbusSimulatorServer_def
      midnight_reads_def Let_def)

lemma midnight_battery:
  "fst (battery_update 1 (59 / 5) 1 powerwall) =
     Inr (battery_get_status (snd (battery_update 1 (59 / 5) 1 powerwall)))"
  by (simp add: battery_defs Let_def)

lemma midnight_battery_report:
  "battery_report (\<lambda>r. 0) (battery_get_status (snd (battery_update 1 (59 / 5) 1 powerwall)))
     (battery_registers (\<lambda>r. 0)
        (battery_get_status (snd (battery_update 1 (59 / 5) 1 powerwall)))
        (replicate 100 0)) =
   \<lparr> battery_data.soc = 50, battery_data.power_w = 5000, battery_data.voltage_v = 49.8,
     battery_data.current_a = 100.4, battery_data.temperature_c = 20,
     battery_data.status = 2 \<rparr>"
  by (simp add: battery_defs battery_report_def battery_registers_def py_int_def Let_def)

lemma midnight_grid:
  "fst (grid_update (calm_second\<lparr>grid_env.current_hour := 0\<rparr>) 6800 meter_25kw) =
     Inr (grid_get_status
            (snd (grid_update (calm_second\<lparr>grid_env.current_hour := 0\<rparr>) 6800 meter_25kw)))"
  by (simp add: grid_defs Let_def power2_eq_square)

lemma midnight_grid_report:
  "grid_report (grid_get_status
     (snd (grid_update (calm_second\<lparr>grid_env.current_hour := 0\<rparr>) 6800 meter_25kw))) =
   \<lparr> grid_data.power_w = 6800, grid_data.voltage_v = 230, grid_data.frequency_hz = 50,
     grid_data.import_energy_wh = 1.9, grid_data.export_energy_wh = 0 \<rparr>"
  by (simp add: grid_defs grid_report_def Let_def power2_eq_square)

lemma float_error_midnight [simp]: "float_error midnight_pass u = (\<lambda>r. 0)"
  by (simp add: midnight_pass_def)

lemma midnight_tick:
  "fst (tick midnight_pass default_server) =
     Inr (\<lparr> solar_part =
              \<lparr> solar_data.power_w = 0, solar_data.energy_wh = 0, solar_data.voltage_v = 380,
                solar_data.current_a = 0, solar_data.status = 0 \<rparr>,
            battery_part =
              \<lparr> battery_data.soc = 50, battery_data.power_w = 5000,
                battery_data.voltage_v = 49.8, battery_data.current_a = 100.4,
                battery_data.temperature_c = 20, battery_data.status = 2 \<rparr>,
            grid_part =
              \<lparr> grid_data.power_w = 6800, grid_data.voltage_v = 230,
                grid_data.frequency_hz = 50, grid_data.import_energy_wh = 1.9,
                grid_data.export_energy_wh = 0 \<rparr>,
            ev_part =
              \<lparr> ev_data.power_w = 11000, ev_data.session_energy_wh = 3.1,
                ev_data.vehicle_soc = 30, ev_data.status = ''charging'',
                ev_data.status_code = 2 \<rparr> \<rparr>,
          6800)"
  by (simp add: tick_def try_body_def case_prod_beta Let_def ev_stage battery_stage grid_stage
      solar_stage midnight_solar midnight_ev midnight_ev_report midnight_battery
      midnight_battery_report midnight_grid midnight_grid_report)










section \<open>Claims about the update loop\<close>

text \<open>
  C1. In every pass of the update loop that completes, the integer number of watts given
  to the grid meter differs by less than 1 W (the truncation of \<open>int\<close>) from the load
  minus the solar power minus the battery power of the pass's telemetry, where the load is
  the base load of 800 W plus the charger's power; the same holds with the battery power
  split into discharge and charge. All quantities are those of the same pass: the
  telemetry's solar entry is the result of this pass's solar update, the charger and the
  battery are in the states this pass's updates left them in, the battery's power is its
  answer to the request of load minus solar power, and the meter stores the given value
  limited to its connection capacity. The telemetry's charger power is within 0.05 W of
  the charger's unrounded power. The telemetry's battery power is the truncated float
  product \<open>int(status['power_kw'] * 1000)\<close>: with a rounding error of that product below 1
  in magnitude it is within 1.5 W of the battery's unrounded power (0.5 W from rounding to
  three decimals, 1 W from the truncation), so the value given to the meter is within
  2.55 W of the balance of the unrounded powers.
\<close>

theorem C1_grid_balance:
  assumes "fst (tick env S) = Inr (t, net)"
    and "\<bar>float_error env 2 1\<bar> < 1"
  shows
    "\<bar>real_of_int net
       - ((base_load_w + ev_data.power_w (ev_part t))
          - real_of_int (solar_data.power_w (solar_part t))
          - real_of_int (battery_data.power_w (battery_part t)))\<bar> < 1 \<and>
     \<bar>real_of_int net
       - ((base_load_w + ev_data.power_w (ev_part t))
          + max 0 (- real_of_int (battery_data.power_w (battery_part t)))
          - real_of_int (solar_data.power_w (solar_part t))
          - max 0 (real_of_int (battery_data.power_w (battery_part t))))\<bar> < 1 \<and>
     fst (update_solar_registers env S) = Inr (solar_part t) \<and>
     ev_sim (snd (tick env S)) = snd (ev_update (ev_reads env) (ev_sim S)) \<and>
     \<bar>ev_data.power_w (ev_part t) - ev_charger.power_w (ev_sim (snd (tick env S)))\<bar>
       \<le> 1 / 20 \<and>
     battery_sim (snd (tick env S)) =
       snd (battery_update (battery_draw env)
              (((base_load_w + ev_data.power_w (ev_part t))
                - real_of_int (solar_data.power_w (solar_part t))) / 1000) 1
              (battery_sim S)) \<and>
     battery.power_kw (battery_sim (snd (tick env S))) =
       constrain_power (battery_sim S)
         (((base_load_w + ev_data.power_w (ev_part t))
           - real_of_int (solar_data.power_w (solar_part t))) / 1000) \<and>
     \<bar>real_of_int (battery_data.power_w (battery_part t))
       - 1000 * battery.power_kw (battery_sim (snd (tick env S)))\<bar> \<le> 3 / 2 \<and>
     grid_meter.power_w (grid_sim (snd (tick env S))) =
       max (- (grid_meter.max_power_kw (grid_sim S) * 1000))
           (min (grid_meter.max_power_kw (grid_sim S) * 1000) (real_of_int net)) \<and>
     \<bar>real_of_int net
       - ((base_load_w + ev_charger.power_w (ev_sim (snd (tick env S))))
          - real_of_int (solar_data.power_w (solar_part t))
          - 1000 * battery.power_kw (battery_sim (snd (tick env S))))\<bar> < 51 / 20"
proof -
  let ?S' = "snd (tick env S)"
  from assms(1) have "try_body env S = (Inr (t, net), ?S')"
    by (rule tick_returns)
  then obtain solar_d S1 ev_d S2 battery_d S3 grid_d S4 where
    sol: "update_solar_registers env S = (Inr solar_d, S1)"
    and ev: "update_ev_registers env S1 = (Inr ev_d, S2)"
    and bat: "update_battery_registers env (solar_data.power_w solar_d)
                (800 + ev_data.power_w ev_d) S2 = (Inr battery_d, S3)"
    and net: "net = py_int (800 + ev_data.power_w ev_d
                 - real_of_int (solar_data.power_w solar_d)
                 - real_of_int (battery_data.power_w battery_d))"
    and grd: "update_grid_registers env net S3 = (Inr grid_d, S4)"
    and t: "t = \<lparr> solar_part = solar_d, battery_part = battery_d,
               grid_part = grid_d, ev_part = ev_d \<rparr>"
    and S': "?S' = (publish_telemetry t S4)\<lparr>server.last_update := end_time env\<rparr>"
    by (rule try_body_success)
  let ?request = "(800 + ev_data.power_w ev_d - real_of_int (solar_data.power_w solar_d)) / 1000"
  let ?ev_run = "ev_update (ev_reads env) (ev_sim S)"
  let ?battery_run = "battery_update (battery_draw env) ?request 1 (battery_sim S)"
  from sol have S1: "S1 = snd (update_solar_registers env S)"
    by simp
  from update_ev_registers_cases(2) [OF ev] obtain ev_st where
    er: "fst ?ev_run = Inr ev_st" and ed: "ev_d = ev_report ev_st"
    and S2: "ev_sim S2 = snd ?ev_run" "battery_sim S2 = battery_sim S"
      "grid_sim S2 = grid_sim S"
    by (auto simp: S1 solar_stage)
  from update_battery_registers_cases(2) [OF bat] obtain b_st where
    br: "fst ?battery_run = Inr b_st"
    and bd: "battery_d = battery_report (float_error env 2) b_st
                           (battery_registers (float_error env 2) b_st (hr_battery S2))"
    and S3: "battery_sim S3 = snd ?battery_run" "ev_sim S3 = ev_sim S2"
      "grid_sim S3 = grid_sim S2"
    by (auto simp: S2)
  from update_grid_registers_cases(2) [OF grd]
  have S4: "grid_sim S4 = snd (grid_update (grid_reads env) (real_of_int net) (grid_sim S3))"
    "battery_sim S4 = battery_sim S3" "ev_sim S4 = ev_sim S3"
    by simp_all
  have sims: "ev_sim ?S' = snd ?ev_run" "battery_sim ?S' = snd ?battery_run"
    "grid_sim ?S' = snd (grid_update (grid_reads env) (real_of_int net) (grid_sim S))"
    by (simp_all add: S' S4 S3 S2)
  have c1: "\<bar>real_of_int net
       - ((800 + ev_data.power_w ev_d) - real_of_int (solar_data.power_w solar_d)
          - real_of_int (battery_data.power_w battery_d))\<bar> < 1"
    using py_int_trunc [of "800 + ev_data.power_w ev_d
                 - real_of_int (solar_data.power_w solar_d)
                 - real_of_int (battery_data.power_w battery_d)"]
    by (simp add: net)
  have c2: "\<bar>real_of_int net
       - ((800 + ev_data.power_w ev_d)
          + max 0 (- real_of_int (battery_data.power_w battery_d))
          - real_of_int (solar_data.power_w solar_d)
          - max 0 (real_of_int (battery_data.power_w battery_d)))\<bar> < 1"
    using c1 by linarith
  from sol have c3: "fst (update_solar_registers env S) = Inr solar_d"
    by simp
  from er have "ev_st = ev_get_status (ev_reads env) (snd ?ev_run)"
    by (rule ev_update_status)
  with ed have "ev_d = ev_report (ev_get_status (ev_reads env) (snd ?ev_run))"
    by simp
  with ev_reported_watts [of "ev_reads env" "snd ?ev_run"]
  have c5: "\<bar>ev_data.power_w ev_d - ev_charger.power_w (ev_sim ?S')\<bar> \<le> 1 / 20"
    by (simp add: sims)
  from br have c7: "battery.power_kw (battery_sim ?S') = constrain_power (battery_sim S) ?request"
    by (simp add: sims battery_power_stored(1))
  from br have "b_st = battery_get_status (snd ?battery_run)"
    by (rule battery_power_stored(2))
  with bd assms(2)
    battery_reported_watts [where err = "float_error env 2" and b = "snd ?battery_run"
      and hr = "battery_registers (float_error env 2) b_st (hr_battery S2)"]
  have c8: "\<bar>real_of_int (battery_data.power_w battery_d)
       - 1000 * battery.power_kw (battery_sim ?S')\<bar> \<le> 3 / 2"
    by (simp add: sims)
  have c9: "grid_meter.power_w (grid_sim ?S') =
       max (- (grid_meter.max_power_kw (grid_sim S) * 1000))
           (min (grid_meter.max_power_kw (grid_sim S) * 1000) (real_of_int net))"
    by (simp add: sims grid_update_power)
  have c10: "\<bar>real_of_int net
       - ((800 + ev_charger.power_w (ev_sim ?S'))
          - real_of_int (solar_data.power_w solar_d)
          - 1000 * battery.power_kw (battery_sim ?S'))\<bar> < 51 / 20"
    using c1 c5 c8 by linarith
  from c1 c2 c3 c5 c7 c8 c9 c10 sims(1,2) show ?thesis
    by (simp add: t)
qed

theorem C1_grid_balance_witness:
  "fst (tick midnight_pass default_server) =
     Inr (\<lparr> solar_part =
              \<lparr> solar_data.power_w = 0, solar_data.energy_wh = 0, solar_data.voltage_v = 380,
                solar_data.current_a = 0, solar_data.status = 0 \<rparr>,
            battery_part =
              \<lparr> battery_data.soc = 50, battery_data.power_w = 5000,
                battery_data.voltage_v = 49.8, battery_data.current_a = 100.4,
                battery_data.temperature_c = 20, battery_data.status = 2 \<rparr>,
            grid_part =
              \<lparr> grid_data.power_w = 6800, grid_data.voltage_v = 230,
                grid_data.frequency_hz = 50, grid_data.import_energy_wh = 1.9,
                grid_data.export_energy_wh = 0 \<rparr>,
            ev_part =
              \<lparr> ev_data.power_w = 11000, ev_data.session_energy_wh = 3.1,
                ev_data.vehicle_soc = 30, ev_data.status = ''charging'',
                ev_data.status_code = 2 \<rparr> \<rparr>,
          6800) \<and>
   \<bar>float_error midnight_pass 2 1\<bar> < 1 \<and>
   grid_meter.power_w (grid_sim (snd (tick midnight_pass default_server))) = 6800 \<and>
   battery_sim (snd (tick midnight_pass default_server)) =
     snd (battery_update 1 (59 / 5) 1 powerwall)"
proof -
  have e: "\<bar>float_error midnight_pass 2 1\<bar> < 1"
    by simp
  from C1_grid_balance [OF midnight_tick e] midnight_tick show ?thesis
    by (simp add: meter_25kw_def GridSimulator_def)
qed





end
